theory Spec2Isabelle
  imports Complex_Main
begin

section \<open>Modelling conventions\<close>

text \<open>
  This theory embeds the evidence-extraction and valuation core of \<^verbatim>\<open>task_urap.py\<close>.

  \<^item> Python \<^verbatim>\<open>str\<close> values are \<^typ>\<open>string\<close>s. The character predicates (\<^verbatim>\<open>\d\<close>,
    \<^verbatim>\<open>\s\<close>, \<^verbatim>\<open>\w\<close>), \<^verbatim>\<open>lower()\<close>, \<^verbatim>\<open>upper()\<close> and the case-insensitive flag are
    exact on ASCII text; the non-ASCII literals of the source's tables and patterns are
    written as their UTF-8 bytes.
  \<^item> Python \<^verbatim>\<open>float\<close> values are \<^typ>\<open>real\<close>s: arithmetic is exact, there is no rounding,
    infinity or NaN; a pandas NaN cell is an explicit constructor.
  \<^item> Exceptions are values: a function that can raise returns \<open>pyerr + 'a\<close>.
  \<^item> The network, the HTML and PDF parsers, the date search and the FX service are
    collaborators outside the source; they are fields of an environment record.
  \<^item> A leading underscore of a source name is dropped (\<^verbatim>\<open>_to_float\<close> is \<open>to_float\<close>),
    since an Isabelle name cannot start with one.
\<close>

section \<open>Python string primitives\<close>

datatype pyerr = ValueError

definition is_space :: "char \<Rightarrow> bool" where
  "is_space c \<longleftrightarrow> c \<in> set [CHR '' '', CHR 0x09, CHR 0x0A, CHR 0x0B, CHR 0x0C, CHR 0x0D,
                          CHR 0x1C, CHR 0x1D, CHR 0x1E, CHR 0x1F]"

definition is_digit :: "char \<Rightarrow> bool" where
  "is_digit c \<longleftrightarrow> c \<in> set ''0123456789''"

definition is_upper :: "char \<Rightarrow> bool" where
  "is_upper c \<longleftrightarrow> c \<in> set ''ABCDEFGHIJKLMNOPQRSTUVWXYZ''"

definition is_lower :: "char \<Rightarrow> bool" where
  "is_lower c \<longleftrightarrow> c \<in> set ''abcdefghijklmnopqrstuvwxyz''"

definition is_alpha :: "char \<Rightarrow> bool" where
  "is_alpha c \<longleftrightarrow> is_lower c \<or> is_upper c"

definition is_word :: "char \<Rightarrow> bool" where
  "is_word c \<longleftrightarrow> is_alpha c \<or> is_digit c \<or> c = CHR ''_''"

definition lower_char :: "char \<Rightarrow> char" where
  "lower_char c =
     (case map_of (zip ''ABCDEFGHIJKLMNOPQRSTUVWXYZ'' ''abcdefghijklmnopqrstuvwxyz'') c of
        Some d \<Rightarrow> d | None \<Rightarrow> c)"

definition upper_char :: "char \<Rightarrow> char" where
  "upper_char c =
     (case map_of (zip ''abcdefghijklmnopqrstuvwxyz'' ''ABCDEFGHIJKLMNOPQRSTUVWXYZ'') c of
        Some d \<Rightarrow> d | None \<Rightarrow> c)"

definition lower :: "string \<Rightarrow> string" where
  "lower s = map lower_char s"

definition upper :: "string \<Rightarrow> string" where
  "upper s = map upper_char s"

text \<open>\<^verbatim>\<open>s.strip()\<close> and \<^verbatim>\<open>s.strip(".")\<close>.\<close>

definition strip_with :: "(char \<Rightarrow> bool) \<Rightarrow> string \<Rightarrow> string" where
  "strip_with p s = rev (dropWhile p (rev (dropWhile p s)))"

definition strip :: "string \<Rightarrow> string" where
  "strip s = strip_with is_space s"

fun startswith :: "string \<Rightarrow> string \<Rightarrow> bool" where
  "startswith s [] = True"
| "startswith [] (p # ps) = False"
| "startswith (c # s) (p # ps) = (c = p \<and> startswith s ps)"

definition endswith :: "string \<Rightarrow> string \<Rightarrow> bool" where
  "endswith s p = startswith (rev s) (rev p)"

text \<open>\<^verbatim>\<open>sub in s\<close> on strings.\<close>

fun contains :: "string \<Rightarrow> string \<Rightarrow> bool" where
  "contains sub [] = (sub = [])"
| "contains sub (c # s) = (startswith (c # s) sub \<or> contains sub s)"

text \<open>\<^verbatim>\<open>s.rfind(c)\<close> for a single character: the last index, or -1.\<close>

fun rfind_from :: "char \<Rightarrow> string \<Rightarrow> int \<Rightarrow> int \<Rightarrow> int" where
  "rfind_from c [] i found = found"
| "rfind_from c (x # xs) i found = rfind_from c xs (i + 1) (if x = c then i else found)"

definition rfind :: "string \<Rightarrow> char \<Rightarrow> int" where
  "rfind s c = rfind_from c s 0 (-1)"

text \<open>\<^verbatim>\<open>s.replace(a, "")\<close> and \<^verbatim>\<open>s.replace(a, b)\<close> for single characters.\<close>

definition remove_char :: "char \<Rightarrow> string \<Rightarrow> string" where
  "remove_char a s = filter (\<lambda>c. c \<noteq> a) s"

definition replace_char :: "char \<Rightarrow> char \<Rightarrow> string \<Rightarrow> string" where
  "replace_char a b s = map (\<lambda>c. if c = a then b else c) s"

text \<open>\<^verbatim>\<open>sep.join(xs)\<close>.\<close>

fun join :: "string \<Rightarrow> string list \<Rightarrow> string" where
  "join sep [] = []"
| "join sep [x] = x"
| "join sep (x # y # ys) = x @ sep @ join sep (y # ys)"

text \<open>\<^verbatim>\<open>s.split()\<close>: the maximal runs of non-whitespace characters.\<close>

fun split_ws_acc :: "string \<Rightarrow> string \<Rightarrow> string list" where
  "split_ws_acc [] cur = (if cur = [] then [] else [rev cur])"
| "split_ws_acc (c # s) cur =
     (if is_space c then (if cur = [] then split_ws_acc s [] else rev cur # split_ws_acc s [])
      else split_ws_acc s (c # cur))"

definition split_ws :: "string \<Rightarrow> string list" where
  "split_ws s = split_ws_acc s []"

text \<open>\<^verbatim>\<open>s.split(c)\<close> for a single separator character.\<close>

fun split_char_acc :: "char \<Rightarrow> string \<Rightarrow> string \<Rightarrow> string list" where
  "split_char_acc d [] cur = [rev cur]"
| "split_char_acc d (c # s) cur =
     (if c = d then rev cur # split_char_acc d s [] else split_char_acc d s (c # cur))"

definition split_char :: "char \<Rightarrow> string \<Rightarrow> string list" where
  "split_char d s = split_char_acc d s []"

text \<open>The loop \<^verbatim>\<open>for x in out: if x not in uniq: uniq.append(x)\<close>.\<close>

fun uniq_acc :: "'a list \<Rightarrow> 'a list \<Rightarrow> 'a list" where
  "uniq_acc [] uniq = uniq"
| "uniq_acc (x # xs) uniq = uniq_acc xs (if x \<in> set uniq then uniq else uniq @ [x])"

definition uniq_list :: "'a list \<Rightarrow> 'a list" where
  "uniq_list out = uniq_acc out []"

subsection \<open>Numbers from and to text\<close>

definition digit_val :: "char \<Rightarrow> nat" where
  "digit_val c = (case map_of (zip ''0123456789'' [0, 1, 2, 3, 4, 5, 6, 7, 8, 9]) c of
                    Some d \<Rightarrow> d | None \<Rightarrow> 0)"

definition digits_val :: "string \<Rightarrow> nat" where
  "digits_val s = foldl (\<lambda>n c. 10 * n + digit_val c) 0 s"

text \<open>
  \<^verbatim>\<open>float(s)\<close> on a string of digits, dots and white space, which is all the callers
  pass: after stripping, the text must be \<^verbatim>\<open>digits\<close>, \<^verbatim>\<open>digits.\<close>, \<^verbatim>\<open>.digits\<close> or
  \<^verbatim>\<open>digits.digits\<close>; anything else raises \<^verbatim>\<open>ValueError\<close>. (Signs, exponents,
  underscores and the words \<^verbatim>\<open>inf\<close> and \<^verbatim>\<open>nan\<close> do not occur in such a string.)
\<close>

definition py_float :: "string \<Rightarrow> pyerr + real" where
  "py_float s =
     (let t = strip s;
          ip = takeWhile is_digit t;
          r = dropWhile is_digit t
      in if r = [] then (if ip = [] then Inl ValueError else Inr (real (digits_val ip)))
         else if hd r = CHR ''.'' \<and> list_all is_digit (tl r) \<and> (ip \<noteq> [] \<or> tl r \<noteq> [])
         then Inr (real (digits_val ip) + real (digits_val (tl r)) / 10 ^ length (tl r))
         else Inl ValueError)"

text \<open>\<^verbatim>\<open>int(x)\<close> on a float truncates towards zero.\<close>

definition int_of_float :: "real \<Rightarrow> int" where
  "int_of_float x = (if 0 \<le> x then \<lfloor>x\<rfloor> else \<lceil>x\<rceil>)"

text \<open>
  \<^verbatim>\<open>int(s)\<close> on a string: white space around, an optional sign, then digits, where
  single underscores may separate digits.
\<close>

fun digit_groups :: "string \<Rightarrow> bool" where
  "digit_groups [] = False"
| "digit_groups [c] = is_digit c"
| "digit_groups (c # d # s) =
     (is_digit c \<and> (if d = CHR ''_'' then digit_groups s else digit_groups (d # s)))"

definition py_int :: "string \<Rightarrow> pyerr + int" where
  "py_int s =
     (let t = strip s;
          neg = (t \<noteq> [] \<and> hd t = CHR ''-'');
          body = (if t \<noteq> [] \<and> (hd t = CHR ''-'' \<or> hd t = CHR ''+'') then tl t else t)
      in if digit_groups body
         then Inr ((if neg then -1 else 1) * int (digits_val (remove_char CHR ''_'' body)))
         else Inl ValueError)"

text \<open>\<^verbatim>\<open>str(n)\<close> for a non-negative integer, and zero padding to a width.\<close>

definition digit_char :: "nat \<Rightarrow> char" where
  "digit_char d = ''0123456789'' ! (d mod 10)"

function str_nat :: "nat \<Rightarrow> string" where
  "str_nat n = (if n < 10 then [digit_char n] else str_nat (n div 10) @ [digit_char n])"
  by pat_completeness auto
termination
  by (relation "measure id") auto

declare str_nat.simps [simp del]

definition str_int :: "int \<Rightarrow> string" where
  "str_int i = (if i < 0 then CHR ''-'' # str_nat (nat (- i)) else str_nat (nat i))"

definition zero_pad :: "nat \<Rightarrow> string \<Rightarrow> string" where
  "zero_pad w s = replicate (w - length s) CHR ''0'' @ s"

section \<open>A backtracking matcher for the patterns of the source\<close>

text \<open>
  The source's patterns run on Python's \<^verbatim>\<open>re\<close>, a backtracking matcher: alternatives are
  tried left to right, a greedy repetition tries one more iteration before it stops, a
  lazy one stops before it tries more, and the first way that lets the whole pattern
  succeed is the match. \<open>rxk\<close> is that search. It takes what is still to be matched as a
  stack and returns the first success. A state holds the character before the position
  (for \<^verbatim>\<open>\b\<close> and \<^verbatim>\<open>^\<close>), the text still to read, the characters consumed inside the
  innermost open group (newest first) and the groups captured.

  \<open>Lit ic w\<close> is the literal \<open>w\<close>, case-insensitive when \<open>ic\<close> holds; \<open>Rep r m n\<close> is
  \<^verbatim>\<open>r{m,n}\<close>; \<open>Star\<close> and \<open>LazyStar\<close> are \<^verbatim>\<open>r*\<close> and \<^verbatim>\<open>r*?\<close>; \<open>Grp n r\<close> is the group
  \<open>n\<close>; \<open>WordB\<close>, \<open>Bol\<close> and \<open>Eol\<close> are \<^verbatim>\<open>\b\<close>, \<^verbatim>\<open>^\<close> and \<^verbatim>\<open>$\<close>.
\<close>

datatype rx = Eps | Cls "char \<Rightarrow> bool" | Lit bool string | Seq rx rx | Alts "rx list"
  | Rep rx nat nat | Star rx | LazyStar rx | Grp string rx | WordB | Bol | Eol

record mstate =
  prev :: "char option"
  rest :: string
  acc :: string
  caps :: "(string \<times> string) list"

definition word_before :: "mstate \<Rightarrow> bool" where
  "word_before st = (case prev st of None \<Rightarrow> False | Some c \<Rightarrow> is_word c)"

definition word_after :: "mstate \<Rightarrow> bool" where
  "word_after st = (case rest st of [] \<Rightarrow> False | c # _ \<Rightarrow> is_word c)"

definition same_char :: "bool \<Rightarrow> char \<Rightarrow> char \<Rightarrow> bool" where
  "same_char ic c x = (if ic then lower_char x = lower_char c else x = c)"

definition advance :: "mstate \<Rightarrow> char \<Rightarrow> string \<Rightarrow> mstate" where
  "advance st c s = st\<lparr>prev := Some c, rest := s, acc := c # acc st\<rparr>"

text \<open>
  The stack: a pattern to match, the end of an iteration of a repetition (which must
  have consumed something, as in \<^verbatim>\<open>re\<close>, or the repetition would not end), and the end
  of a group (with the characters consumed before the group opened). The weights only
  serve the termination proof.
\<close>

datatype kont = KRx rx | KStar rx nat | KLazy rx nat | KGrp string string

definition rep_weight :: "nat \<Rightarrow> nat \<Rightarrow> nat \<Rightarrow> nat" where
  "rep_weight w lo hi = (w + 2) * (lo + hi) + 1"

fun rx_weight :: "rx \<Rightarrow> nat" where
  "rx_weight (Seq a b) = rx_weight a + rx_weight b + 1"
| "rx_weight (Alts rs) = sum_list (map (\<lambda>r. rx_weight r + 1) rs) + 1"
| "rx_weight (Rep a lo hi) = rep_weight (rx_weight a) lo hi"
| "rx_weight (Star a) = rx_weight a + 2"
| "rx_weight (LazyStar a) = rx_weight a + 2"
| "rx_weight (Grp n a) = rx_weight a + 2"
| "rx_weight r = 1"

fun kont_weight :: "nat \<Rightarrow> kont \<Rightarrow> nat" where
  "kont_weight len (KRx r) = rx_weight r"
| "kont_weight len (KStar a n) = (if len < n then rx_weight a + 3 else 0)"
| "kont_weight len (KLazy a n) = (if len < n then rx_weight a + 3 else 0)"
| "kont_weight len (KGrp n saved) = 1"

function rxk :: "kont list \<Rightarrow> mstate \<Rightarrow> mstate option" where
  "rxk [] st = Some st"
| "rxk (KRx Eps # k) st = rxk k st"
| "rxk (KRx (Cls p) # k) st =
     (case rest st of
        [] \<Rightarrow> None
      | c # s \<Rightarrow> if p c then rxk k (advance st c s) else None)"
| "rxk (KRx (Lit ic w) # k) st =
     (case rest st of
        [] \<Rightarrow> (if w = [] then rxk k st else None)
      | c # s \<Rightarrow>
         (case w of
            [] \<Rightarrow> rxk k st
          | x # w' \<Rightarrow> if same_char ic x c then rxk (KRx (Lit ic w') # k) (advance st c s)
                      else None))"
| "rxk (KRx (Seq a b) # k) st = rxk (KRx a # KRx b # k) st"
| "rxk (KRx (Alts []) # k) st = None"
| "rxk (KRx (Alts (a # as)) # k) st =
     (case rxk (KRx a # k) st of Some r \<Rightarrow> Some r | None \<Rightarrow> rxk (KRx (Alts as) # k) st)"
| "rxk (KRx (Rep a lo hi) # k) st =
     (if 0 < lo then rxk (KRx a # KRx (Rep a (lo - 1) (hi - 1)) # k) st
      else if hi = 0 then rxk k st
      else (case rxk (KRx a # KRx (Rep a 0 (hi - 1)) # k) st of
              Some r \<Rightarrow> Some r
            | None \<Rightarrow> rxk k st))"
| "rxk (KRx (Star a) # k) st =
     (case rxk (KRx a # KStar a (length (rest st)) # k) st of
        Some r \<Rightarrow> Some r
      | None \<Rightarrow> rxk k st)"
| "rxk (KStar a n # k) st =
     (if length (rest st) < n then rxk (KRx (Star a) # k) st else None)"
| "rxk (KRx (LazyStar a) # k) st =
     (case rxk k st of
        Some r \<Rightarrow> Some r
      | None \<Rightarrow> rxk (KRx a # KLazy a (length (rest st)) # k) st)"
| "rxk (KLazy a n # k) st =
     (if length (rest st) < n then rxk (KRx (LazyStar a) # k) st else None)"
| "rxk (KRx (Grp n a) # k) st = rxk (KRx a # KGrp n (acc st) # k) (st\<lparr>acc := []\<rparr>)"
| "rxk (KGrp n saved # k) st =
     rxk k (st\<lparr>acc := acc st @ saved, caps := (n, rev (acc st)) # caps st\<rparr>)"
| "rxk (KRx WordB # k) st = (if word_before st \<noteq> word_after st then rxk k st else None)"
| "rxk (KRx Bol # k) st = (if prev st = None then rxk k st else None)"
| "rxk (KRx Eol # k) st =
     (if rest st = [] \<or> rest st = [CHR 0x0A] then rxk k st else None)"
  by pat_completeness auto
termination
proof -
  have pos: "0 < rep_weight w lo hi" for w lo hi
    by (simp add: rep_weight_def)
  have dec1: "w + rep_weight w (lo - Suc 0) (hi - Suc 0) < rep_weight w lo hi"
    if "0 < lo" for w lo hi
  proof -
    from that have "(lo - 1) + (hi - 1) + 1 \<le> lo + hi" by arith
    then have "(w + 2) * ((lo - 1) + (hi - 1) + 1) \<le> (w + 2) * (lo + hi)"
      by (rule mult_le_mono2)
    then show ?thesis by (simp add: rep_weight_def)
  qed
  have dec2: "w + rep_weight w 0 (hi - Suc 0) < rep_weight w 0 hi" if "0 < hi" for w hi
  proof -
    from that have "(hi - 1) + 1 \<le> hi" by arith
    then have "(w + 2) * ((hi - 1) + 1) \<le> (w + 2) * hi"
      by (rule mult_le_mono2)
    then show ?thesis by (simp add: rep_weight_def)
  qed
  show ?thesis
    by (relation "measures [\<lambda>(k, st). length (rest st),
                            \<lambda>(k, st). sum_list (map (kont_weight (length (rest st))) k)]")
       (auto simp: advance_def pos dec1 dec2)
qed

text \<open>Pattern syntax: literals, classes, \<^verbatim>\<open>?\<close>, \<^verbatim>\<open>+\<close>, \<^verbatim>\<open>+?\<close>.\<close>

definition lit :: "string \<Rightarrow> rx" where
  "lit s = Lit False s"

definition liti :: "string \<Rightarrow> rx" where
  "liti s = Lit True s"

definition one_of :: "string \<Rightarrow> rx" where
  "one_of cs = Cls (\<lambda>x. x \<in> set cs)"

fun seqs :: "rx list \<Rightarrow> rx" where
  "seqs [] = Eps"
| "seqs [r] = r"
| "seqs (r # rs) = Seq r (seqs rs)"

definition opt :: "rx \<Rightarrow> rx" where
  "opt r = Rep r 0 1"

definition plus :: "rx \<Rightarrow> rx" where
  "plus r = Seq r (Star r)"

definition lazy_plus :: "rx \<Rightarrow> rx" where
  "lazy_plus r = Seq r (LazyStar r)"

definition digit :: rx where
  "digit = Cls is_digit"

definition space :: rx where
  "space = Cls is_space"

definition wordc :: rx where
  "wordc = Cls is_word"

definition dot :: rx where
  "dot = Cls (\<lambda>c. c \<noteq> CHR 0x0A)"

text \<open>\<^verbatim>\<open>s?\<close> after a word of the pattern, as in \<^verbatim>\<open>rounds?\<close>.\<close>

definition word_s :: "bool \<Rightarrow> string \<Rightarrow> rx" where
  "word_s ic w = Seq (Lit ic w) (opt (Lit ic ''s''))"

text \<open>Two words with \<^verbatim>\<open>\s+\<close> or \<^verbatim>\<open>\s*\<close> between them, as in \<^verbatim>\<open>handed\s+over\<close>.\<close>

definition words_sp :: "bool \<Rightarrow> string \<Rightarrow> string \<Rightarrow> rx" where
  "words_sp ic a b = seqs [Lit ic a, plus space, Lit ic b]"

definition words_sp0 :: "bool \<Rightarrow> string \<Rightarrow> string \<Rightarrow> rx" where
  "words_sp0 ic a b = seqs [Lit ic a, Star space, Lit ic b]"

text \<open>\<^verbatim>\<open>\bw\b\<close> for a case-insensitive word \<open>w\<close>.\<close>

definition bword :: "string \<Rightarrow> rx" where
  "bword w = seqs [WordB, Lit True w, WordB]"

subsection \<open>\<^verbatim>\<open>re.match\<close>, \<^verbatim>\<open>re.search\<close>, \<^verbatim>\<open>finditer\<close> and the groups of a match\<close>

definition start_state :: "char option \<Rightarrow> string \<Rightarrow> mstate" where
  "start_state p s = \<lparr>prev = p, rest = s, acc = [], caps = []\<rparr>"

definition match_at :: "rx \<Rightarrow> char option \<Rightarrow> string \<Rightarrow> mstate option" where
  "match_at r p s = rxk [KRx r] (start_state p s)"

definition re_match :: "rx \<Rightarrow> string \<Rightarrow> mstate option" where
  "re_match r s = match_at r None s"

fun search_from :: "rx \<Rightarrow> char option \<Rightarrow> string \<Rightarrow> mstate option" where
  "search_from r p [] = match_at r p []"
| "search_from r p (c # s) =
     (case match_at r p (c # s) of Some st \<Rightarrow> Some st | None \<Rightarrow> search_from r (Some c) s)"

definition re_search :: "rx \<Rightarrow> string \<Rightarrow> mstate option" where
  "re_search r s = search_from r None s"

text \<open>\<^verbatim>\<open>if re.search(r, s)\<close>.\<close>

definition found :: "rx \<Rightarrow> string \<Rightarrow> bool" where
  "found r s = (re_search r s \<noteq> None)"

text \<open>
  \<^verbatim>\<open>finditer\<close>: the matches from left to right, each search starting where the last
  match ended. A match that consumed nothing moves the scan on by one character; no
  pattern of the source matches the empty string.
\<close>

function finditer_from :: "rx \<Rightarrow> char option \<Rightarrow> string \<Rightarrow> mstate list" where
  "finditer_from r p [] = []"
| "finditer_from r p (c # s) =
     (case match_at r p (c # s) of
        None \<Rightarrow> finditer_from r (Some c) s
      | Some st \<Rightarrow>
          if length (rest st) < length (c # s)
          then st # finditer_from r (prev st) (rest st)
          else finditer_from r (Some c) s)"
  by pat_completeness auto
termination
  by (relation "measure (\<lambda>(r, p, s). length s)") auto

definition finditer :: "rx \<Rightarrow> string \<Rightarrow> mstate list" where
  "finditer r s = finditer_from r None s"

text \<open>\<^verbatim>\<open>m.group(0)\<close> and \<^verbatim>\<open>m.group(name)\<close>, which is \<^verbatim>\<open>None\<close> for a group that took no part.\<close>

definition group0 :: "mstate \<Rightarrow> string" where
  "group0 st = rev (acc st)"

definition group :: "mstate \<Rightarrow> string \<Rightarrow> string option" where
  "group st n = map_of (caps st) n"

text \<open>\<^verbatim>\<open>x or d\<close> on an optional string.\<close>

definition or_str :: "string option \<Rightarrow> string \<Rightarrow> string" where
  "or_str x d = (case x of None \<Rightarrow> d | Some s \<Rightarrow> if s = [] then d else s)"

subsection \<open>Which character a match can start with\<close>

text \<open>
  \<open>nullable r\<close> holds when \<open>r\<close> may match without consuming, \<open>first r c\<close> when a match of
  \<open>r\<close> that consumes may start with \<open>c\<close>. They are used to evaluate alternations: see
  \<open>alts_prune\<close> below.
\<close>

fun nullable :: "rx \<Rightarrow> bool" where
  "nullable Eps = True"
| "nullable (Cls p) = False"
| "nullable (Lit ic w) = (w = [])"
| "nullable (Seq a b) = (nullable a \<and> nullable b)"
| "nullable (Alts rs) = list_ex nullable rs"
| "nullable (Rep a lo hi) = (lo = 0 \<or> nullable a)"
| "nullable (Star a) = True"
| "nullable (LazyStar a) = True"
| "nullable (Grp n a) = nullable a"
| "nullable WordB = True"
| "nullable Bol = True"
| "nullable Eol = True"

fun first :: "rx \<Rightarrow> char \<Rightarrow> bool" where
  "first Eps c = False"
| "first (Cls p) c = p c"
| "first (Lit ic w) c = (case w of [] \<Rightarrow> False | x # _ \<Rightarrow> same_char ic x c)"
| "first (Seq a b) c = (first a c \<or> (nullable a \<and> first b c))"
| "first (Alts rs) c = list_ex (\<lambda>r. first r c) rs"
| "first (Rep a lo hi) c = first a c"
| "first (Star a) c = first a c"
| "first (LazyStar a) c = first a c"
| "first (Grp n a) c = first a c"
| "first WordB c = False"
| "first Bol c = False"
| "first Eol c = False"

definition can_start :: "char \<Rightarrow> rx \<Rightarrow> bool" where
  "can_start c r = (first r c \<or> nullable r)"

fun kstart :: "char \<Rightarrow> kont list \<Rightarrow> bool" where
  "kstart c [] = True"
| "kstart c (KRx r # k) = (first r c \<or> (nullable r \<and> kstart c k))"
| "kstart c (KStar a n # k) = (first a c \<or> kstart c k)"
| "kstart c (KLazy a n # k) = (first a c \<or> kstart c k)"
| "kstart c (KGrp n saved # k) = kstart c k"

definition alts_try :: "rx list \<Rightarrow> kont list \<Rightarrow> mstate \<Rightarrow> mstate option" where
  "alts_try rs k st = rxk (KRx (Alts rs) # k) st"

section \<open>The collaborators and the mutable state\<close>

text \<open>
  What the program reads from outside is a field of \<open>env\<close>; what it changes is a field
  of \<open>world\<close>. \<open>net_log\<close> is not in the source: it records the URL of every
  \<^verbatim>\<open>requests.get\<close> made for a document or a search page, so that the number of network
  calls can be stated.
\<close>

datatype payload = Doc string string | Link string

record response =
  content_type :: string
  page_text :: string
  published :: string
  pdf_text :: "string option"

record env =
  HAVE_WEB :: bool
  have_pdf_extract :: bool
  cache_writable :: bool
  http_get :: "string \<Rightarrow> response option"
  google_hrefs :: "string \<Rightarrow> string list option"
  href_q :: "string \<Rightarrow> pyerr + string"
  hostname :: "string \<Rightarrow> pyerr + string"
  search_dates :: "string \<Rightarrow> string list \<Rightarrow> (int \<times> nat) list option"
  fx_api :: "string \<Rightarrow> real option"

record world =
  cache :: "string \<rightharpoonup> payload"
  net_log :: "string list"
  FX_CACHE :: "string \<rightharpoonup> real"

text \<open>
  \<^item> \<open>http_get u\<close>: the response of \<^verbatim>\<open>requests.get(u)\<close> as the parsers see it, \<open>None\<close> when
    the request or the HTML parser raises. \<open>page_text\<close> is \<^verbatim>\<open>soup.get_text(separator=" ")\<close>
    after the script, style and noscript elements are removed; \<open>published\<close> is the
    publication time found (\<open>''''\<close> when there is none); \<open>pdf_text\<close> is
    \<^verbatim>\<open>pdf_extract_text(...) or ""\<close>, \<open>None\<close> when the extractor raises.
  \<^item> \<open>google_hrefs u\<close>: the \<^verbatim>\<open>href\<close> of every anchor of a search page, \<open>None\<close> when the
    request raises; \<open>href_q\<close> is \<^verbatim>\<open>parse_qs(urlparse(href).query).get("q", [""])[0]\<close>
    and \<open>hostname u\<close> is \<^verbatim>\<open>urlparse(u).hostname or ""\<close>, or the exception either raises.
  \<^item> \<open>search_dates text langs\<close>: the (year, month) of each hit of \<^verbatim>\<open>dateparser\<close>, in
    order; \<open>None\<close> when the library is missing, raises or finds nothing.
  \<^item> \<open>fx_api c\<close>: the EUR rate of an answer of the rate service that is ok and has one.
  \<^item> \<open>cache\<close>: the cache directory, one well-formed entry per key (the SHA-1 file name
    is taken as injective); \<open>Doc kind text\<close> is \<^verbatim>\<open>{"kind":..., "text":...}\<close> and \<open>Link u\<close> is
    \<^verbatim>\<open>{"url": u}\<close>.
\<close>

section \<open>FX and money parsing\<close>

type_synonym fx_cache = "string \<rightharpoonup> real"

definition FALLBACK :: "(string \<times> real) list" where
  "FALLBACK =
     [(''USD'', 0.92), (''GBP'', 1.17), (''CHF'', 1.02), (''CAD'', 0.68), (''AUD'', 0.62),
      (''NZD'', 0.56), (''SEK'', 0.089), (''NOK'', 0.084), (''DKK'', 0.134), (''PLN'', 0.23),
      (''CZK'', 0.040), (''HUF'', 0.0026), (''RON'', 0.20), (''BGN'', 0.51), (''TRY'', 0.028),
      (''ILS'', 0.26), (''INR'', 0.011), (''CNY'', 0.13), (''JPY'', 0.0064), (''KRW'', 0.00068),
      (''MXN'', 0.052), (''BRL'', 0.18), (''ZAR'', 0.049), (''SAR'', 0.245), (''AED'', 0.25),
      (''QAR'', 0.25), (''KWD'', 3.0), (''TWD'', 0.029), (''UAH'', 0.024)]"

text \<open>\<^verbatim>\<open>_fx_rate_to_eur\<close>: the rate and the updated \<^verbatim>\<open>FX_CACHE\<close>.\<close>

definition fx_rate_to_eur :: "env \<Rightarrow> fx_cache \<Rightarrow> string \<Rightarrow> real \<times> fx_cache" where
  "fx_rate_to_eur e fx ccy =
     (let c = strip (upper ccy)
      in if c = [] \<or> c = ''EUR'' then (1, fx)
         else case fx c of
           Some r \<Rightarrow> (r, fx)
         | None \<Rightarrow>
             (case (if HAVE_WEB e then fx_api e c else None) of
                Some rate \<Rightarrow>
                  if rate \<noteq> 0 \<and> rate > 0 then (rate, fx(c \<mapsto> rate))
                  else (case map_of FALLBACK c of
                          Some r \<Rightarrow> (r, fx(c \<mapsto> r)) | None \<Rightarrow> (1, fx(c \<mapsto> 1)))
              | None \<Rightarrow>
                  (case map_of FALLBACK c of
                     Some r \<Rightarrow> (r, fx(c \<mapsto> r)) | None \<Rightarrow> (1, fx(c \<mapsto> 1)))))"

definition MULT_MAP :: "(string \<times> real) list" where
  "MULT_MAP =
     [(''billion'', 1000000000), (''bn'', 1000000000), (''b'', 1000000000),
      (''million'', 1000000), (''mln'', 1000000), (''m'', 1000000),
      (''thousand'', 1000), (''k'', 1000),
      (''mrd'', 1000000000), (''mrd.'', 1000000000), (''milliard'', 1000000000),
      (''milliards'', 1000000000), (''miliardi'', 1000000000), (''miljard'', 1000000000),
      (''miljarder'', 1000000000),
      (''mio'', 1000000), (''mio.'', 1000000), (''millions'', 1000000), (''milioni'', 1000000),
      (''miljoner'', 1000000), (''milj.'', 1000000),
      (''mln.'', 1000000), (''mld'', 1000000000), (''mld.'', 1000000000), (''tys.'', 1000),
      ([CHR 0xD0, CHR 0xBC, CHR 0xD0, CHR 0xBB, CHR 0xD1, CHR 0x80, CHR 0xD0, CHR 0xB4],
       1000000000),
      ([CHR 0xD0, CHR 0xBC, CHR 0xD0, CHR 0xBB, CHR 0xD0, CHR 0xBD], 1000000),
      ([CHR 0xD1, CHR 0x82, CHR 0xD1, CHR 0x8B, CHR 0xD1, CHR 0x81], 1000),
      ([CHR 0xD1, CHR 0x82, CHR 0xD0, CHR 0xB8, CHR 0xD1, CHR 0x81, CHR ''.''], 1000),
      (''milyar'', 1000000000), (''milyon'', 1000000), (''bin'', 1000),
      ([CHR 0xE5, CHR 0x84, CHR 0x84], 100000000),
      ([CHR 0xE4, CHR 0xB8, CHR 0x87], 10000),
      ([CHR 0xE8, CHR 0x90, CHR 0xAC], 10000),
      ([CHR 0xE5, CHR 0x85, CHR 0x86], 1000000000000),
      ([CHR 0xEC, CHR 0x96, CHR 0xB5], 100000000),
      ([CHR 0xEB, CHR 0xA7, CHR 0x8C], 10000),
      ([CHR 0xEC, CHR 0xA1, CHR 0xB0], 1000000000000)]"

definition CUR_TAGS :: "(string \<times> string) list" where
  "CUR_TAGS =
     [([CHR 0xE2, CHR 0x82, CHR 0xAC], ''EUR''), (''eur'', ''EUR''), (''euro'', ''EUR''),
      (''$'', ''USD''), (''usd'', ''USD''), (''us$'', ''USD''),
      ([CHR 0xC2, CHR 0xA3], ''GBP''), (''gbp'', ''GBP''),
      ([CHR 0xC2, CHR 0xA5], ''JPY''), (''jpy'', ''JPY''),
      ([CHR 0xE5, CHR 0x86, CHR 0x86], ''JPY''),
      ([CHR 0xE2, CHR 0x82, CHR 0xA9], ''KRW''), (''krw'', ''KRW''),
      ([CHR 0xE2, CHR 0x82, CHR 0xBA], ''TRY''), (''try'', ''TRY''), (''tl'', ''TRY''),
      (''chf'', ''CHF''), (''cad'', ''CAD''), (''aud'', ''AUD''), (''nzd'', ''NZD''),
      (''sek'', ''SEK''), (''nok'', ''NOK''), (''dkk'', ''DKK''), (''czk'', ''CZK''),
      (''huf'', ''HUF''), (''pln'', ''PLN''),
      ([CHR ''z'', CHR 0xC5, CHR 0x82], ''PLN''), (''zl'', ''PLN''),
      (''ron'', ''RON''), (''bgn'', ''BGN''), (''uah'', ''UAH''), (''ils'', ''ILS''),
      ([CHR 0xE2, CHR 0x82, CHR 0xAA], ''ILS''), (''cny'', ''CNY''), (''rmb'', ''CNY''),
      ([CHR 0xE2, CHR 0x82, CHR 0xBD], ''RUB''),
      (''mxn'', ''MXN''), (''brl'', ''BRL''), (''zar'', ''ZAR''), (''sar'', ''SAR''),
      (''aed'', ''AED''), (''qar'', ''QAR''), (''kwd'', ''KWD''),
      (''nt$'', ''TWD''), (''twd'', ''TWD''), (''ntd'', ''TWD''),
      ([CHR 0xE5, CHR 0x85, CHR 0x83], ''CNY''),
      ([CHR 0xE6, CHR 0x96, CHR 0xB0, CHR 0xE5, CHR 0x8F, CHR 0xB0, CHR 0xE5, CHR 0xB9, CHR 0xA3],
       ''TWD''),
      ([CHR 0xE6, CHR 0x96, CHR 0xB0, CHR 0xE8, CHR 0x87, CHR 0xBA, CHR 0xE5, CHR 0xB9, CHR 0xA3],
       ''TWD'')]"

definition WORD_CUR :: "(string \<times> string) list" where
  "WORD_CUR =
     [(''dollar'', ''USD''), (''dollars'', ''USD''),
      (''euro'', ''EUR''), (''euros'', ''EUR''),
      (''pound'', ''GBP''), (''pounds'', ''GBP''), (''sterling'', ''GBP''),
      (''zloty'', ''PLN''),
      ([CHR ''z'', CHR 0xC5, CHR 0x82, CHR ''o'', CHR ''t'', CHR ''y''], ''PLN''),
      (''zlotych'', ''PLN''),
      (''koruna'', ''CZK''), (''krona'', ''SEK''), (''kronor'', ''SEK''), (''krone'', ''NOK''),
      (''shekel'', ''ILS''), (''shekels'', ''ILS''),
      (''hryvnia'', ''UAH''), (''franc'', ''CHF''), (''francs'', ''CHF'')]"

text \<open>
  \<^verbatim>\<open>_norm_currency_tag\<close>. \<^verbatim>\<open>len(t) == 3\<close> counts characters; every token the two
  patterns can capture that is not in a table is three ASCII letters.
\<close>

definition norm_currency_tag :: "string option \<Rightarrow> string option" where
  "norm_currency_tag tok =
     (let t = strip (lower (or_str tok ''''))
      in case map_of CUR_TAGS t of
           Some c \<Rightarrow> Some c
         | None \<Rightarrow>
             (case map_of WORD_CUR t of
                Some c \<Rightarrow> Some c
              | None \<Rightarrow> if length t = 3 then Some (upper t) else None))"

text \<open>
  \<^verbatim>\<open>_MULT_ALTS\<close>: the keys of \<^verbatim>\<open>_MULT_MAP\<close>, escaped, sorted by the length of the escaped
  key, longest first; the sort is stable, so keys of one length keep the table's order.
  An escaped dot counts two characters, which puts \<^verbatim>\<open>mrd\.\<close> among the keys of length 5.
\<close>

definition MULT_ALTS :: rx where
  "MULT_ALTS = Alts
     [liti ''milliards'', liti ''miljarder'', liti ''thousand'', liti ''milliard'',
      liti ''miliardi'', liti ''millions'', liti ''miljoner'', liti ''billion'', liti ''million'',
      liti ''miljard'', liti ''milioni'', liti ''milj.'', liti ''milyar'', liti ''milyon'',
      liti ''mrd.'', liti ''mio.'', liti ''mln.'', liti ''mld.'', liti ''tys.'',
      liti [CHR 0xD1, CHR 0x82, CHR 0xD0, CHR 0xB8, CHR 0xD1, CHR 0x81, CHR ''.''],
      liti [CHR 0xD0, CHR 0xBC, CHR 0xD0, CHR 0xBB, CHR 0xD1, CHR 0x80, CHR 0xD0, CHR 0xB4],
      liti ''mln'', liti ''mrd'', liti ''mio'', liti ''mld'',
      liti [CHR 0xD0, CHR 0xBC, CHR 0xD0, CHR 0xBB, CHR 0xD0, CHR 0xBD],
      liti [CHR 0xD1, CHR 0x82, CHR 0xD1, CHR 0x8B, CHR 0xD1, CHR 0x81],
      liti ''bin'', liti ''bn'', liti ''b'', liti ''m'', liti ''k'',
      liti [CHR 0xE5, CHR 0x84, CHR 0x84], liti [CHR 0xE4, CHR 0xB8, CHR 0x87],
      liti [CHR 0xE8, CHR 0x90, CHR 0xAC], liti [CHR 0xE5, CHR 0x85, CHR 0x86],
      liti [CHR 0xEC, CHR 0x96, CHR 0xB5], liti [CHR 0xEB, CHR 0xA7, CHR 0x8C],
      liti [CHR 0xEC, CHR 0xA1, CHR 0xB0]]"

text \<open>The currency symbols both patterns share:
  \<^verbatim>\<open>EUR-sign | \$ | GBP-sign | JPY-sign | KRW-sign | TRY-sign | ILS-sign | zl-with-stroke | nt\$\<close>.\<close>

definition CUR_SYMBOLS :: "rx list" where
  "CUR_SYMBOLS =
     [liti [CHR 0xE2, CHR 0x82, CHR 0xAC], liti ''$'', liti [CHR 0xC2, CHR 0xA3],
      liti [CHR 0xC2, CHR 0xA5], liti [CHR 0xE2, CHR 0x82, CHR 0xA9],
      liti [CHR 0xE2, CHR 0x82, CHR 0xBA], liti [CHR 0xE2, CHR 0x82, CHR 0xAA],
      liti [CHR ''z'', CHR 0xC5, CHR 0x82], liti ''nt$'']"

text \<open>\<^verbatim>\<open>(?:\d{1,3}(?:[.,\s]\d{3})+|\d+)(?:[.,]\d+)?\<close>\<close>

definition NUM_RX :: rx where
  "NUM_RX =
     Seq (Alts [Seq (Rep digit 1 3)
                    (plus (Seq (Cls (\<lambda>c. c \<in> set ''.,'' \<or> is_space c)) (Rep digit 3 3))),
                plus digit])
         (opt (Seq (one_of ''.,'') (plus digit)))"

definition CUR_BEFORE :: rx where
  "CUR_BEFORE = Alts CUR_SYMBOLS"

definition RX_BEFORE :: rx where
  "RX_BEFORE =
     seqs [Grp ''cur'' CUR_BEFORE, Star space, Grp ''num'' NUM_RX,
           opt (Seq (opt space) (Grp ''mult'' MULT_ALTS))]"

definition CUR_AFTER :: rx where
  "CUR_AFTER = Alts
     ([Rep (Cls is_alpha) 3 3] @ CUR_SYMBOLS @
      [liti ''euro'', word_s True ''euro'', liti ''usd'', liti ''us$'',
       word_s True ''dollar'', liti ''gbp'', word_s True ''pound'', liti ''sterling'',
       liti ''jpy'', liti ''yen'', liti ''krw'', liti ''won'', liti ''try'', liti ''lira'',
       liti ''pln'',
       liti [CHR ''z'', CHR 0xC5, CHR 0x82, CHR ''o'', CHR ''t'', CHR ''y''],
       liti ''zloty'', liti ''zlotych'', liti ''twd'',
       liti ''chf'', word_s True ''franc'', liti ''cad'', liti ''aud'', liti ''nzd'',
       liti ''sek'', liti ''krona'', liti ''kronor'', liti ''nok'', liti ''krone'',
       liti ''dkk'', liti ''czk'', liti ''koruna'',
       liti ''huf'', liti ''ron'', liti ''bgn'', liti ''uah'', liti ''hryvnia'',
       liti ''ils'', word_s True ''shekel'', liti ''cny'', liti ''rmb'', liti ''mxn'',
       liti ''brl'', liti ''zar'', liti ''sar'', liti ''aed'', liti ''qar'',
       liti ''kwd''])"

definition RX_AFTER :: rx where
  "RX_AFTER =
     seqs [Grp ''num'' NUM_RX, opt space, opt (Grp ''mult'' MULT_ALTS), opt space,
           Grp ''cur'' CUR_AFTER]"

text \<open>\<^verbatim>\<open>_to_float\<close>. The second \<^verbatim>\<open>float\<close> is inside the handler, so its error is raised.\<close>

definition to_float :: "string \<Rightarrow> pyerr + real" where
  "to_float num =
     (let s0 = remove_char CHR '' '' num;
          s = (if CHR '','' \<in> set s0 \<and> CHR ''.'' \<in> set s0
               then (if rfind s0 CHR '','' > rfind s0 CHR ''.''
                     then replace_char CHR '','' CHR ''.'' (remove_char CHR ''.'' s0)
                     else remove_char CHR '','' s0)
               else remove_char CHR '','' s0)
      in case py_float s of
           Inr x \<Rightarrow> Inr x
         | Inl _ \<Rightarrow>
             (let s' = filter (\<lambda>c. is_digit c \<or> c = CHR ''.'') s
              in if s' = [] then Inr 0 else py_float s'))"

definition multiplier :: "string option \<Rightarrow> real" where
  "multiplier tok =
     (case tok of
        None \<Rightarrow> 1
      | Some tk \<Rightarrow>
          if tk = [] then 1
          else (case map_of MULT_MAP (strip_with (\<lambda>c. c = CHR ''.'') (strip (lower tk))) of
                  Some m \<Rightarrow> m | None \<Rightarrow> 1))"

type_synonym cand = "real \<times> string \<times> string"

text \<open>The body both \<^verbatim>\<open>for m in ...finditer(text)\<close> loops of \<^verbatim>\<open>extract_money_eur\<close> share.\<close>

fun collect_cands :: "env \<Rightarrow> mstate list \<Rightarrow> cand list \<Rightarrow> fx_cache \<Rightarrow> (pyerr + cand list) \<times> fx_cache"
  where
  "collect_cands e [] cands fx = (Inr cands, fx)"
| "collect_cands e (m # ms) cands fx =
     (let cur = norm_currency_tag (group m ''cur'')
      in case to_float (or_str (group m ''num'') ''0'') of
           Inl err \<Rightarrow> (Inl err, fx)
         | Inr num \<Rightarrow>
             (let mul = multiplier (group m ''mult'')
              in case cur of
                   None \<Rightarrow> collect_cands e ms cands fx
                 | Some c \<Rightarrow>
                     (let (rate, fx') = fx_rate_to_eur e fx c
                      in collect_cands e ms (cands @ [(num * mul * rate, c, group0 m)]) fx')))"

text \<open>
  \<^verbatim>\<open>cands.sort(key=lambda x: x[0], reverse=True)\<close>: descending by value and stable, so
  candidates of equal value keep the order in which they were appended.
\<close>

definition sort_desc :: "cand list \<Rightarrow> cand list" where
  "sort_desc cands = sort_key (\<lambda>c. - fst c) cands"

definition select_cand :: "cand list \<Rightarrow> real option \<times> string option \<times> string option" where
  "select_cand cands =
     (case sort_desc cands of
        [] \<Rightarrow> (None, None, None)
      | (val_eur, cur, frag) # _ \<Rightarrow>
          if val_eur \<le> 0 then (None, Some cur, Some frag)
          else (Some val_eur, Some cur, Some frag))"

definition money_cands :: "env \<Rightarrow> fx_cache \<Rightarrow> string \<Rightarrow> (pyerr + cand list) \<times> fx_cache" where
  "money_cands e fx text =
     (case collect_cands e (finditer RX_BEFORE text) [] fx of
        (Inl err, fx1) \<Rightarrow> (Inl err, fx1)
      | (Inr cands1, fx1) \<Rightarrow> collect_cands e (finditer RX_AFTER text) cands1 fx1)"

definition extract_money_eur ::
  "env \<Rightarrow> fx_cache \<Rightarrow> string \<Rightarrow>
     (pyerr + real option \<times> string option \<times> string option) \<times> fx_cache" where
  "extract_money_eur e fx text =
     (if text = [] then (Inr (None, None, None), fx)
      else case money_cands e fx text of
             (Inl err, fx') \<Rightarrow> (Inl err, fx')
           | (Inr cands, fx') \<Rightarrow> (Inr (select_cand cands), fx'))"

section \<open>The evidence classifier\<close>

text \<open>
  \<^verbatim>\<open>DELIVERY_WORDS\<close> and \<^verbatim>\<open>COMMIT_WORDS\<close>; the flag says whether the search that uses
  the pattern passes \<^verbatim>\<open>re.IGNORECASE\<close>. Numbered groups that no code reads are not
  recorded.
\<close>

definition DELIVERY_WORDS :: "bool \<Rightarrow> rx" where
  "DELIVERY_WORDS ic = Alts
     [Lit ic ''delivered'', words_sp ic ''handed'' ''over'',
      Seq (Lit ic ''arriv'') (Alts [Lit ic ''ed'', word_s ic ''al'']),
      Lit ic ''transferred'', Lit ic ''shipment'', Lit ic ''shipped'', Lit ic ''supplied'',
      Lit ic ''provided'']"

definition COMMIT_WORDS :: "bool \<Rightarrow> rx" where
  "COMMIT_WORDS ic = Alts
     [Seq (Lit ic ''announce'') (Alts [Lit ic ''d'', Lit ic ''ment'']),
      Seq (Lit ic ''pledge'') (opt (Lit ic ''d'')),
      Seq (Lit ic ''commit'') (Alts [Lit ic ''ted'', Lit ic ''ment'']),
      Seq (Lit ic ''authorize'') (opt (Lit ic ''d''))]"

definition infer_status :: "string \<Rightarrow> string" where
  "infer_status text =
     (let t = lower text
      in if found (DELIVERY_WORDS False) t then ''Delivered/Disbursed''
         else if found (COMMIT_WORDS False) t then ''Commitment/Other''
         else ''Commitment/Other'')"

definition STOCKPILE_RX :: rx where
  "STOCKPILE_RX = Alts
     [lit ''drawdown'', seqs [lit ''from'', plus space, word_s False ''stock''],
      words_sp False ''from'' ''stockpiles'', words_sp False ''from'' ''inventory'',
      words_sp False ''from'' ''reserves'', lit ''pda'',
      words_sp False ''presidential'' ''drawdown'']"

definition NEW_PRODUCTION_RX :: rx where
  "NEW_PRODUCTION_RX = Alts
     [lit ''procure'', lit ''procurement'', lit ''contract'', lit ''order'', lit ''purchase'',
      lit ''manufactur'', words_sp False ''framework'' ''contract'', lit ''tender'']"

definition INDIRECT_RX :: rx where
  "INDIRECT_RX = Alts
     [lit ''ringtausch'', lit ''backfill'', lit ''swap'', words_sp False ''indirect'' ''transfer'',
      Seq (lit ''compensat'') (Alts [lit ''e'', lit ''ion'']), words_sp False ''in'' ''return'']"

definition source_type :: "string \<Rightarrow> string" where
  "source_type text =
     (let t = lower text
      in if found STOCKPILE_RX t then ''stockpile''
         else if found NEW_PRODUCTION_RX t then ''new_production''
         else if found INDIRECT_RX t then ''indirect''
         else ''unknown'')"

text \<open>\<^verbatim>\<open>[-\s]\<close>\<close>

definition dash_sp :: rx where
  "dash_sp = Cls (\<lambda>c. c = CHR ''-'' \<or> is_space c)"

definition LIFE_AMMO :: rx where
  "LIFE_AMMO = Alts [lit ''ammo'', lit ''ammunition'', lit ''shell'', lit ''round'', lit ''rocket'',
                     lit ''missile'', lit ''grenade'', lit ''mine'']"

definition LIFE_ARTILLERY :: rx where
  "LIFE_ARTILLERY = Alts [lit ''howitzer'', lit ''artillery'', lit ''mortar'', lit ''gun'']"

definition LIFE_ARMOR :: rx where
  "LIFE_ARMOR = Alts [lit ''tank'', lit ''mbt'', lit ''ifv'', lit ''apc'', lit ''armou'',
                      lit ''vehicle'', lit ''truck'', lit ''stryk'', lit ''bradley'',
                      lit ''leopard'', lit ''abrams'', lit ''m113'', lit ''cv90'']"

definition LIFE_AIR_DEFENSE :: rx where
  "LIFE_AIR_DEFENSE = Alts [lit ''patriot'', lit ''nasams'',
                            seqs [lit ''iris'', opt dash_sp, lit ''t''], lit ''sam'',
                            words_sp0 False ''air'' ''defen'', lit ''radar'']"

definition LIFE_UAV :: rx where
  "LIFE_UAV = Alts [lit ''uav'', lit ''drone'', lit ''loitering'',
                    words_sp0 False ''phoenix'' ''ghost'', lit ''switchblade'']"

definition LIFE_SOFT :: rx where
  "LIFE_SOFT = Alts [words_sp0 False ''night'' ''vision'', lit ''nvg'', lit ''helmet'',
                     lit ''vest'', lit ''uniform'', lit ''protective'', lit ''generator'']"

definition LIFE_DEMINING :: rx where
  "LIFE_DEMINING = Alts [lit ''demin'', lit ''clearance'']"

definition useful_life_years :: "string \<Rightarrow> int" where
  "useful_life_years items_text =
     (let t = lower items_text
      in if found LIFE_AMMO t then 0
         else if found LIFE_ARTILLERY t then 30
         else if found LIFE_ARMOR t then 25
         else if found LIFE_AIR_DEFENSE t then 25
         else if found LIFE_UAV t then 6
         else if found LIFE_SOFT t then 5
         else if found LIFE_DEMINING t then 10
         else 15)"

text \<open>\<^verbatim>\<open>\bA[-\s]?B\b\<close> for case-insensitive \<open>A\<close> and \<open>B\<close>, as in \<^verbatim>\<open>\bF[-\s]?16\b\<close>.\<close>

definition bjoin :: "string \<Rightarrow> string \<Rightarrow> rx" where
  "bjoin a b = seqs [WordB, liti a, opt dash_sp, liti b, WordB]"

definition KEYMAP :: "(rx \<times> string) list" where
  "KEYMAP =
     [(bword ''ATACMS'', ''ATACMS long-range missiles''),
      (bword ''HIMARS'', ''HIMARS rockets/launchers''),
      (bword ''GMLRS'', ''GMLRS rockets''),
      (seqs [WordB, word_s True ''NASAM'', WordB], ''NASAMS air-defense''),
      (bword ''Patriot'', ''Patriot air-defense''),
      (seqs [WordB, liti ''AIM'', opt dash_sp, liti ''9'', Star wordc, WordB], ''AIM-9 missiles''),
      (Alts [bword ''AMRAAM'', bjoin ''AIM'' ''120''], ''AMRAAM missiles''),
      (bjoin ''F'' ''16'', ''F-16 support''),
      (bword ''Leopard'', ''Leopard tanks''),
      (Alts [bword ''Abrams'', bword ''Bradley'', bword ''Stryker'', bword ''M113'',
             bword ''CV90''], ''Armored vehicles''),
      (seqs [WordB, Alts [liti ''155'', liti ''152'', liti ''122'', liti ''120'', liti ''105''],
             opt space, liti ''mm'', WordB], ''Artillery/mortar ammo''),
      (Alts [bword ''Switchblade'', seqs [WordB, words_sp True ''Phoenix'' ''Ghost'', WordB]],
       ''Loitering munitions''),
      (Alts [seqs [WordB, words_sp True ''Storm'' ''Shadow'', WordB], bword ''SCALP''],
       ''Cruise missiles''),
      (Alts [bword ''Stinger'', bword ''Javelin'', bword ''NLAW''], ''AT/AA missiles''),
      (Alts [words_sp0 True ''night'' ''vision'', liti ''helmet'', liti ''vest'',
             liti ''generator'', liti ''ambulance''], ''Non-lethal equipment''),
      (Alts [liti ''demin'', liti ''clearance''], ''Demining equipment''),
      (bjoin ''PT'' ''91'', ''PT-91 tanks''),
      (bjoin ''T'' ''72'', ''T-72 tanks''),
      (bjoin ''Mi'' ''24'', ''Mi-24 attack helicopters''),
      (bword ''Piorun'', ''Piorun MANPADS''),
      (seqs [WordB, liti ''ZU'', opt dash_sp, liti ''23'', opt dash_sp, liti ''2'', WordB],
       ''ZU-23-2 autocannons''),
      (bword ''FlyEye'', ''FlyEye UAVs''),
      (bjoin ''S'' ''60'', ''S-60 AA guns''),
      (bjoin ''LMP'' ''2017'', ''LMP-2017 mortars'')]"

text \<open>\<^verbatim>\<open>list(dict.fromkeys(out))[:20]\<close> keeps the first occurrence of each label.\<close>

definition extract_items :: "string \<Rightarrow> string list" where
  "extract_items text =
     (let low = lower text
      in take 20 (uniq_list (map snd (filter (\<lambda>(rx, label). found rx low) KEYMAP))))"


text \<open>
  \<^verbatim>\<open>ITEM_NOUNS\<close> and the pattern of \<^verbatim>\<open>extract_item_counts\<close>, compiled with
  \<^verbatim>\<open>re.IGNORECASE\<close>, under which \<^verbatim>\<open>[A-Z]\<close> is any ASCII letter.
\<close>

definition ITEM_NOUNS :: rx where
  "ITEM_NOUNS = Alts
     [word_s True ''unit'', word_s True ''system'', word_s True ''vehicle'', word_s True ''tank'',
      word_s True ''ifv'', word_s True ''apc'', word_s True ''mbt'', word_s True ''howitzer'',
      word_s True ''gun'', word_s True ''launcher'', word_s True ''batterie'',
      word_s True ''missile'', word_s True ''rocket'', word_s True ''round'',
      word_s True ''shell'', word_s True ''cartridge'', word_s True ''grenade'',
      word_s True ''mine'', word_s True ''drone'', word_s True ''uav'', liti ''aircraft'',
      word_s True ''helicopter'', word_s True ''rifle'', word_s True ''truck'',
      word_s True ''radar'']"

text \<open>\<^verbatim>\<open>\d{1,3}(?:[.,]\d{3})*|\d+\<close>\<close>

definition QTY_RX :: rx where
  "QTY_RX = Alts [Seq (Rep digit 1 3) (Star (Seq (one_of ''.,'') (Rep digit 3 3))), plus digit]"

text \<open>\<^verbatim>\<open>[\w\-/]\<close> and \<^verbatim>\<open>[A-Z0-9]\<close>\<close>

definition name_char :: rx where
  "name_char = Cls (\<lambda>c. is_word c \<or> c \<in> set ''-/'')"

definition alnum :: rx where
  "alnum = Cls (\<lambda>c. is_alpha c \<or> is_digit c)"

text \<open>\<^verbatim>\<open>[A-Z][\w\-/]+(?:\s+[A-Z0-9][\w\-/]+){0,3}\<close>\<close>

definition NAME_RX :: rx where
  "NAME_RX = seqs [Cls is_alpha, plus name_char,
                   Rep (seqs [plus space, alnum, plus name_char]) 0 3]"

text \<open>\<^verbatim>\<open>\d{2,4}\s?mm(?:\s*(?:rounds?|shells?|ammo))?\<close>\<close>

definition CALIBER_RX :: rx where
  "CALIBER_RX = seqs [Rep digit 2 4, opt space, liti ''mm'',
                      opt (Seq (Star space)
                               (Alts [word_s True ''round'', word_s True ''shell'', liti ''ammo'']))]"

definition ITEM_RX :: rx where
  "ITEM_RX = seqs [Grp ''qty'' QTY_RX, Star space, opt (Seq (liti ''x'') (Star space)),
                   opt (Grp ''noun'' ITEM_NOUNS), Star space,
                   Grp ''item'' (Alts [NAME_RX, CALIBER_RX])]"

text \<open>The body of the loop of \<^verbatim>\<open>extract_item_counts\<close>: the label of a match, if it is kept.\<close>

definition item_label :: "mstate \<Rightarrow> pyerr + string option" where
  "item_label m =
     (case to_float (or_str (group m ''qty'') []) of
        Inl err \<Rightarrow> Inl err
      | Inr q \<Rightarrow>
          (let qty = int_of_float q;
               noun = strip (or_str (group m ''noun'') []);
               item = strip (or_str (group m ''item'') []);
               label = (if noun = [] then str_int qty @ '' '' @ item
                        else str_int qty @ '' '' @ item @ '' '' @ noun)
           in if 1 \<le> qty \<and> length label \<le> 80 then Inr (Some label) else Inr None))"

fun item_labels :: "mstate list \<Rightarrow> string list \<Rightarrow> pyerr + string list" where
  "item_labels [] out = Inr out"
| "item_labels (m # ms) out =
     (case item_label m of
        Inl err \<Rightarrow> Inl err
      | Inr None \<Rightarrow> item_labels ms out
      | Inr (Some label) \<Rightarrow> item_labels ms (out @ [label]))"

definition extract_item_counts :: "string \<Rightarrow> pyerr + string list" where
  "extract_item_counts text =
     (case item_labels (finditer ITEM_RX text) [] of
        Inl err \<Rightarrow> Inl err
      | Inr out \<Rightarrow> Inr (take 20 (uniq_list out)))"

section \<open>The unit-cost valuation model\<close>

text \<open>\<^verbatim>\<open>\bNmm\b.*(round|shell|ammo)\<close> with an optional space before \<^verbatim>\<open>mm\<close>.\<close>

definition caliber_ammo :: "string \<Rightarrow> rx" where
  "caliber_ammo n = seqs [WordB, liti n, opt space, liti ''mm'', WordB, Star dot,
                          Alts [liti ''round'', liti ''shell'', liti ''ammo'']]"

definition UNIT_COST_EUR :: "(rx \<times> real) list" where
  "UNIT_COST_EUR =
     [(caliber_ammo ''155'', 3500),
      (caliber_ammo ''105'', 2500),
      (seqs [WordB, liti ''120'', opt space, liti ''mm'', WordB, Star dot, liti ''mortar''], 1200),
      (bword ''GMLRS'', 160000),
      (bword ''ATACMS'', 1200000),
      (seqs [bword ''HIMARS'', Star dot, opt (Alts [liti ''launcher'', liti ''system''])],
       5000000),
      (seqs [bword ''Patriot'', Star dot, opt (Alts [liti ''battery'', liti ''system''])],
       400000000),
      (seqs [WordB, word_s True ''NASAM'', WordB], 80000000),
      (Alts [bword ''AMRAAM'', bjoin ''AIM'' ''120''], 1200000),
      (seqs [WordB, liti ''AIM'', opt dash_sp, liti ''9'', Star wordc, WordB], 400000),
      (bword ''Stinger'', 120000),
      (bword ''Javelin'', 170000),
      (bword ''NLAW'', 40000),
      (bword ''Bradley'', 3500000),
      (bword ''Stryker'', 4500000),
      (bword ''Abrams'', 9000000),
      (seqs [WordB, liti ''Leopard'', opt space, liti ''2'', Star wordc, WordB], 8000000),
      (bword ''Leopard'', 4000000),
      (bword ''M113'', 300000),
      (bword ''CV90'', 8000000),
      (bword ''Mi-24'', 10000000),
      (bword ''FlyEye'', 300000),
      (bword ''Piorun'', 100000),
      (bword ''radar'', 5000000),
      (bword ''howitzer'', 1000000),
      (bword ''mortar'', 120000),
      (Alts [bword ''APC'', bword ''IFV'',
             seqs [WordB, liti ''armo'', opt (liti ''u''), liti ''re'', opt (liti ''d''),
                   plus space, liti ''vehicle'', WordB]], 1500000),
      (bword ''truck'', 150000),
      (Alts [seqs [WordB, word_s True ''drone'', WordB], seqs [WordB, word_s True ''UAV'', WordB]],
       50000),
      (seqs [WordB, word_s True ''rifle'', WordB], 1200),
      (Alts [seqs [WordB, word_s True ''helmet'', WordB],
             seqs [WordB, word_s True ''vest'', WordB]], 400)]"

text \<open>\<^verbatim>\<open>_unit_cost_eur\<close>: the price of the first pattern of the catalog found in the label.\<close>

fun first_cost :: "(rx \<times> real) list \<Rightarrow> string \<Rightarrow> real option" where
  "first_cost [] label = None"
| "first_cost ((rx, price) # table) label =
     (if found rx label then Some price else first_cost table label)"

definition unit_cost_eur :: "string \<Rightarrow> real option" where
  "unit_cost_eur label = first_cost UNIT_COST_EUR label"

text \<open>\<^verbatim>\<open>^\s*(\d[\d,\.]*)\s+(.+?)\s*$\<close>\<close>

definition QTY_ITEM_RX :: rx where
  "QTY_ITEM_RX =
     seqs [Bol, Star space,
           Grp ''1'' (Seq digit (Star (Cls (\<lambda>c. is_digit c \<or> c \<in> set '',.'')))),
           plus space, Grp ''2'' (lazy_plus dot), Star space, Eol]"

definition parse_qty_item :: "string \<Rightarrow> pyerr + (int \<times> string) option" where
  "parse_qty_item label =
     (case re_match QTY_ITEM_RX label of
        None \<Rightarrow> Inr None
      | Some m \<Rightarrow>
          (case to_float (or_str (group m ''1'') []) of
             Inl err \<Rightarrow> Inl err
           | Inr q \<Rightarrow> Inr (Some (int_of_float q, or_str (group m ''2'') []))))"

text \<open>
  \<^verbatim>\<open>estimate_value_from_count_labels\<close>. A line of the breakdown is kept as the numbers
  the source formats into it: quantity, label, unit price, value.
\<close>

type_synonym breakdown = "(int \<times> string \<times> real \<times> real) list"

fun estimate_loop :: "string list \<Rightarrow> real \<Rightarrow> breakdown \<Rightarrow> pyerr + real \<times> breakdown" where
  "estimate_loop [] tot bd = Inr (tot, bd)"
| "estimate_loop (lab # labs) tot bd =
     (case parse_qty_item lab of
        Inl err \<Rightarrow> Inl err
      | Inr None \<Rightarrow> estimate_loop labs tot bd
      | Inr (Some (qty, what)) \<Rightarrow>
          (case unit_cost_eur what of
             None \<Rightarrow> estimate_loop labs tot bd
           | Some unit \<Rightarrow>
               if unit \<noteq> 0
               then estimate_loop labs (tot + real_of_int qty * unit)
                      (bd @ [(qty, what, unit, real_of_int qty * unit)])
               else estimate_loop labs tot bd))"

definition estimate_value_from_count_labels :: "string list \<Rightarrow> pyerr + real \<times> breakdown" where
  "estimate_value_from_count_labels labels = estimate_loop labels 0 []"

definition estimate_value_from_text :: "string \<Rightarrow> pyerr + real \<times> breakdown" where
  "estimate_value_from_text text =
     (case extract_item_counts text of
        Inl err \<Rightarrow> Inl err
      | Inr labels \<Rightarrow> estimate_value_from_count_labels labels)"

section \<open>Acquisition and cache\<close>

text \<open>\<^verbatim>\<open>cached.get("kind", "")\<close>, \<^verbatim>\<open>cached.get("text", "")\<close> and \<^verbatim>\<open>cached.get("url")\<close>.\<close>

fun payload_kind :: "payload \<Rightarrow> string" where
  "payload_kind (Doc kind text) = kind"
| "payload_kind (Link u) = []"

fun payload_text :: "payload \<Rightarrow> string" where
  "payload_text (Doc kind text) = text"
| "payload_text (Link u) = []"

fun payload_url :: "payload \<Rightarrow> string option" where
  "payload_url (Doc kind text) = None"
| "payload_url (Link u) = Some u"

text \<open>\<^verbatim>\<open>_save_cache\<close> swallows a failed write; \<^verbatim>\<open>_read_cache\<close> is a lookup.\<close>

definition save_cache :: "env \<Rightarrow> world \<Rightarrow> string \<Rightarrow> payload \<Rightarrow> world" where
  "save_cache e w key p = (if cache_writable e then w\<lparr>cache := (cache w)(key \<mapsto> p)\<rparr> else w)"

definition read_cache :: "world \<Rightarrow> string \<Rightarrow> payload option" where
  "read_cache w key = cache w key"

definition log_request :: "world \<Rightarrow> string \<Rightarrow> world" where
  "log_request w url = w\<lparr>net_log := net_log w @ [url]\<rparr>"

definition fetch_text :: "env \<Rightarrow> world \<Rightarrow> string \<Rightarrow> (string \<times> string) \<times> world" where
  "fetch_text e w url =
     (if \<not> HAVE_WEB e then (([], []), w)
      else case read_cache w url of
        Some cached \<Rightarrow> ((payload_kind cached, payload_text cached), w)
      | None \<Rightarrow>
          (let w1 = log_request w url
           in case http_get e url of
                None \<Rightarrow> (([], []), w1)
              | Some r \<Rightarrow>
                  if contains ''application/pdf'' (lower (content_type r))
                     \<or> endswith (lower url) ''.pdf''
                  then (if \<not> have_pdf_extract e then (([], []), w1)
                        else case pdf_text r of
                               None \<Rightarrow> (([], []), w1)
                             | Some text \<Rightarrow>
                                 ((''pdf'', text), save_cache e w1 url (Doc ''pdf'' text)))
                  else (let text0 = join '' '' (split_ws (page_text r));
                            text = (if published r \<noteq> []
                                    then ''Published '' @ published r @ ''. '' @ text0
                                    else text0)
                        in ((''html'', text), save_cache e w1 url (Doc ''html'' text)))))"

definition is_google_search :: "env \<Rightarrow> string \<Rightarrow> bool" where
  "is_google_search e u =
     (case hostname e u of
        Inl _ \<Rightarrow> False
      | Inr host \<Rightarrow> contains ''google.'' host \<and> contains ''/search'' u)"

definition good_url :: "string \<Rightarrow> string option" where
  "good_url u0 = (let u = strip u0 in if \<not> startswith u ''http'' then None else Some u)"

text \<open>The loop over the anchors in \<^verbatim>\<open>_google_first_result\<close>; an exception ends it with \<^verbatim>\<open>None\<close>.\<close>

fun first_organic :: "env \<Rightarrow> world \<Rightarrow> string \<Rightarrow> string list \<Rightarrow> string option \<times> world" where
  "first_organic e w search_url [] = (None, w)"
| "first_organic e w search_url (href # hrefs) =
     (if startswith href ''/url?''
      then (case href_q e href of
              Inl _ \<Rightarrow> (None, w)
            | Inr q \<Rightarrow>
                if startswith q ''http''
                then (case hostname e q of
                        Inl _ \<Rightarrow> (None, w)
                      | Inr host \<Rightarrow>
                          if \<not> contains ''google.'' host
                          then (Some q, save_cache e w (''g:'' @ search_url) (Link q))
                          else first_organic e w search_url hrefs)
                else first_organic e w search_url hrefs)
      else first_organic e w search_url hrefs)"

definition google_first_result :: "env \<Rightarrow> world \<Rightarrow> string \<Rightarrow> string option \<times> world" where
  "google_first_result e w search_url =
     (if \<not> HAVE_WEB e then (None, w)
      else case read_cache w (''g:'' @ search_url) of
        Some cached \<Rightarrow> (payload_url cached, w)
      | None \<Rightarrow>
          (let w1 = log_request w search_url
           in case google_hrefs e search_url of
                None \<Rightarrow> (None, w1)
              | Some hrefs \<Rightarrow> first_organic e w1 search_url hrefs))"

text \<open>
  \<^verbatim>\<open>_resolve_url_candidates\<close>. \<^verbatim>\<open>re.split(r"\s*\|\s*", src)\<close> followed by \<^verbatim>\<open>strip()\<close> on
  each token gives the tokens that splitting at \<^verbatim>\<open>|\<close> and stripping gives.
\<close>

fun resolve_loop :: "env \<Rightarrow> world \<Rightarrow> string list \<Rightarrow> string list \<Rightarrow> string list \<times> world" where
  "resolve_loop e w [] out = (out, w)"
| "resolve_loop e w (token0 # tokens) out =
     (let token = strip token0
      in if token = [] then resolve_loop e w tokens out
         else if is_google_search e token
         then (case google_first_result e w token of
                 (Some u, w') \<Rightarrow>
                   if u \<noteq> [] then resolve_loop e w' tokens (out @ [u])
                   else resolve_loop e w' tokens out
               | (None, w') \<Rightarrow> resolve_loop e w' tokens out)
         else if startswith token ''http'' then resolve_loop e w tokens (out @ [token])
         else resolve_loop e w tokens out)"

definition resolve_url_candidates :: "env \<Rightarrow> world \<Rightarrow> string \<Rightarrow> string list \<times> world" where
  "resolve_url_candidates e w src =
     (case resolve_loop e w (split_char CHR ''|'' src) [] of
        (out, w') \<Rightarrow> (take 2 (uniq_list out), w'))"

section \<open>Evidence month and \<^verbatim>\<open>parse_source\<close>\<close>

definition COUNTRY_LANG :: "(string \<times> string) list" where
  "COUNTRY_LANG =
     [(''united states'', ''en''), (''united kingdom'', ''en''), (''canada'', ''en''),
      (''australia'', ''en''), (''new zealand'', ''en''),
      (''japan'', ''ja''), (''south korea'', ''ko''), (''taiwan'', ''zh''), (''singapore'', ''en''),
      (''germany'', ''de''), (''france'', ''fr''), (''italy'', ''it''), (''spain'', ''es''),
      (''portugal'', ''pt''), (''netherlands'', ''nl''),
      (''belgium'', ''fr''), (''luxembourg'', ''fr''), (''ireland'', ''en''), (''austria'', ''de''),
      (''switzerland'', ''de''),
      (''poland'', ''pl''), (''czech republic'', ''cs''), (''slovakia'', ''sk''),
      (''hungary'', ''hu''), (''romania'', ''ro''), (''bulgaria'', ''bg''),
      (''slovenia'', ''sl''), (''croatia'', ''hr''), (''estonia'', ''et''), (''latvia'', ''lv''),
      (''lithuania'', ''lt''),
      (''finland'', ''fi''), (''sweden'', ''sv''), (''denmark'', ''da''), (''norway'', ''no''),
      (''iceland'', ''is''), (''cyprus'', ''el''), (''malta'', ''mt''),
      (''turkey'', ''tr''), (''united arab emirates'', ''ar''), (''saudi arabia'', ''ar''),
      (''qatar'', ''ar''), (''kuwait'', ''ar''),
      (''brazil'', ''pt''), (''mexico'', ''es''), (''south africa'', ''en''), (''israel'', ''he''),
      (''india'', ''en'')]"

text \<open>\<^verbatim>\<open>dt.strftime("%Y-%m")\<close> for a year of four digits.\<close>

definition strftime_ym :: "int \<Rightarrow> nat \<Rightarrow> string" where
  "strftime_ym y m = zero_pad 4 (str_int y) @ ''-'' @ zero_pad 2 (str_nat m)"

fun first_in_window :: "(int \<times> nat) list \<Rightarrow> string option" where
  "first_in_window [] = None"
| "first_in_window ((y, m) # hits) =
     (if 2022 \<le> y \<and> y \<le> 2026 then Some (strftime_ym y m) else first_in_window hits)"

definition month_from_text :: "env \<Rightarrow> string \<Rightarrow> string \<Rightarrow> string option" where
  "month_from_text e text country =
     (let lang = (case map_of COUNTRY_LANG (lower (strip country)) of
                    Some l \<Rightarrow> l | None \<Rightarrow> ''en'')
      in case search_dates e text [lang, ''en''] of
           None \<Rightarrow> None
         | Some hits \<Rightarrow> first_in_window hits)"

record evidence =
  ev_status :: "string option"
  ev_evidence_month :: "string option"
  ev_items :: "string option"
  ev_source_type :: "string option"
  ev_raw_text :: string
  ev_value_eur :: "real option"
  ev_money_evidence :: "string option"

definition no_evidence :: evidence where
  "no_evidence = \<lparr>ev_status = None, ev_evidence_month = None, ev_items = None,
                   ev_source_type = None, ev_raw_text = [], ev_value_eur = None,
                   ev_money_evidence = None\<rparr>"

text \<open>\<^verbatim>\<open>.{0,200}DELIVERY_WORDS.{0,200}\<close>, searched with \<^verbatim>\<open>re.IGNORECASE\<close>.\<close>

definition WINDOW_RX :: rx where
  "WINDOW_RX = seqs [Rep dot 0 200, DELIVERY_WORDS True, Rep dot 0 200]"

text \<open>Truth of an optional string and of an optional number in a condition.\<close>

definition truthy_str :: "string option \<Rightarrow> bool" where
  "truthy_str x = (case x of None \<Rightarrow> False | Some s \<Rightarrow> s \<noteq> [])"

definition truthy_num :: "real option \<Rightarrow> bool" where
  "truthy_num x = (case x of None \<Rightarrow> False | Some v \<Rightarrow> v \<noteq> 0)"

definition parse_source :: "env \<Rightarrow> world \<Rightarrow> string \<Rightarrow> string \<Rightarrow> (pyerr + evidence) \<times> world"
  where
  "parse_source e w url country =
     (case fetch_text e w url of
        ((kind, txt), w1) \<Rightarrow>
          if txt = [] then (Inr no_evidence, w1)
          else
            (let status = infer_status txt;
                 win0 = (case re_search WINDOW_RX txt of
                           Some m \<Rightarrow> month_from_text e (group0 m) country
                         | None \<Rightarrow> None);
                 win = (if truthy_str win0 then win0
                        else month_from_text e
                               (take 1200 txt @ drop (length txt - 1200) txt) country)
             in case extract_item_counts txt of
                  Inl err \<Rightarrow> (Inl err, w1)
                | Inr items_quant \<Rightarrow>
                    (let items_simple = extract_items txt;
                         items = (if items_quant \<noteq> [] then items_quant else items_simple);
                         s_type = source_type txt
                     in case extract_money_eur e (FX_CACHE w1) txt of
                          (Inl err, fx) \<Rightarrow> (Inl err, w1\<lparr>FX_CACHE := fx\<rparr>)
                        | (Inr (val_eur, cur, money_frag), fx) \<Rightarrow>
                            (Inr \<lparr>ev_status = Some status, ev_evidence_month = win,
                                  ev_items = Some (join ''; '' items),
                                  ev_source_type = Some s_type,
                                  ev_raw_text = take 20000 txt, ev_value_eur = val_eur,
                                  ev_money_evidence = money_frag\<rparr>,
                             w1\<lparr>FX_CACHE := fx\<rparr>))))"

section \<open>Depreciation and the enrichment of a record\<close>

text \<open>
  A record is one row of the military sheet, with the columns \<^verbatim>\<open>to_military_raw\<close> and
  \<^verbatim>\<open>_build_rows_from_web\<close> create. Both write text into the month, description,
  status, evidence-month, sources and source-type columns, and a float or NaN into the
  base value (\<open>None\<close> is NaN); the other columns hold text, a number or NaN.
\<close>

datatype cell = Str string | Num real | NaN

record row =
  Month :: string
  Base_Value :: "real option"
  Notable_Weapons :: string
  Status :: string
  Evidence_Month :: string
  Sources :: string
  Source_Type :: string
  Production_Year :: cell
  Useful_Life :: cell
  Training_Value :: cell
  Final_Depreciated_Value :: cell

text \<open>\<^verbatim>\<open>life or 1\<close>\<close>

definition life_or_1 :: "int \<Rightarrow> int" where
  "life_or_1 life = (if life = 0 then 1 else life)"

text \<open>
  Lines 1029 to 1032 of \<^verbatim>\<open>auto_enrich_military\<close>: \<^verbatim>\<open>prod_year\<close>, \<^verbatim>\<open>years_used\<close>,
  \<^verbatim>\<open>annual\<close> and the value written when the year is known and the source type is
  \<^verbatim>\<open>stockpile\<close>.
\<close>

definition prod_year :: "int \<Rightarrow> int \<Rightarrow> int" where
  "prod_year send_year life = send_year - min (max 1 (life_or_1 life div 2)) 12"

definition years_used :: "int \<Rightarrow> int \<Rightarrow> int" where
  "years_used send_year life = max 0 (send_year - prod_year send_year life)"

definition annual :: "real \<Rightarrow> int \<Rightarrow> real" where
  "annual base_val life = base_val / real_of_int (life_or_1 life)"

definition stockpile_value :: "real \<Rightarrow> int \<Rightarrow> int \<Rightarrow> real" where
  "stockpile_value base_val life send_year =
     max 0 (base_val - annual base_val life * real_of_int (years_used send_year life))"

text \<open>
  The \<^verbatim>\<open>if ... else\<close> of lines 1028 to 1034, which the spec calls \<^verbatim>\<open>depreciate\<close>: the
  value of the final column for a base value, a useful life, the source type
  (\<^verbatim>\<open>row.get("Source Type") or "unknown"\<close>) and the year of the evidence, \<open>None\<close> when the
  month does not start with a year. The source has no reference year.
\<close>

definition depreciate :: "real \<Rightarrow> int \<Rightarrow> string \<Rightarrow> int option \<Rightarrow> real" where
  "depreciate base_val life stype send_year =
     (case send_year of
        Some y \<Rightarrow> if stype = ''stockpile'' then stockpile_value base_val life y else base_val
      | None \<Rightarrow> base_val)"

text \<open>
  The same step in \<^verbatim>\<open>_build_rows_from_web\<close> (lines 1092 to 1096), which has no year:
  \<^verbatim>\<open>final = max(0.0, base - annual * max(1, (life or 1)//2))\<close> for a stockpile.
\<close>

definition web_final :: "real \<Rightarrow> int \<Rightarrow> string option \<Rightarrow> real" where
  "web_final base life stype =
     (if base \<noteq> 0 \<and> stype = Some ''stockpile''
      then max 0 (base - annual base life * real_of_int (max 1 (life_or_1 life div 2)))
      else base)"

text \<open>\<^verbatim>\<open>int((row.get("Evidence Month") or row.get("Month") or "")[:4])\<close>, \<open>None\<close> on an error.\<close>

definition send_year_of :: "string \<Rightarrow> string \<Rightarrow> int option" where
  "send_year_of evidence_month month =
     (case py_int (take 4 (if evidence_month \<noteq> [] then evidence_month else month)) of
        Inl _ \<Rightarrow> None
      | Inr y \<Rightarrow> Some y)"

text \<open>Lines 998 to 1002: the description after the items of the evidence are merged.\<close>

definition merge_items :: "string \<Rightarrow> string option \<Rightarrow> string" where
  "merge_items desc items =
     (if truthy_str items
      then (let old = strip desc;
                add = strip (or_str items [])
            in if add \<noteq> [] \<and> \<not> contains add old
               then take 6000 (old @ (if old \<noteq> [] then ''; '' else []) @ add)
               else desc)
      else desc)"

text \<open>\<^verbatim>\<open>row.get(k) or res.get(k) or ""\<close>\<close>

definition fill_blank :: "string \<Rightarrow> string option \<Rightarrow> string" where
  "fill_blank old new = (if old \<noteq> [] then old else or_str new [])"

text \<open>Lines 1008 to 1015: the base value after the amount of the evidence is merged.\<close>

definition merge_base :: "real option \<Rightarrow> evidence \<Rightarrow> pyerr + real option" where
  "merge_base base res =
     (if (case base of Some b \<Rightarrow> b > 0 | None \<Rightarrow> False) then Inr base
      else if truthy_num (ev_value_eur res) then Inr (ev_value_eur res)
      else (case estimate_value_from_text (ev_raw_text res) of
              Inl err \<Rightarrow> Inl err
            | Inr (est_val, br) \<Rightarrow>
                if est_val \<noteq> 0 \<and> est_val > 0 then Inr (Some est_val) else Inr base))"

text \<open>
  The body of the loop over the completed tasks (lines 996 to 1036), for a row and the
  evidence found for it.
\<close>

definition merge_row :: "row \<Rightarrow> evidence \<Rightarrow> pyerr + row" where
  "merge_row r res =
     (let desc = merge_items (Notable_Weapons r) (ev_items res);
          r1 = r\<lparr>Notable_Weapons := desc,
                 Status := fill_blank (Status r) (ev_status res),
                 Evidence_Month := fill_blank (Evidence_Month r) (ev_evidence_month res),
                 Source_Type := fill_blank (Source_Type r) (ev_source_type res)\<rparr>
      in case merge_base (Base_Value r) res of
           Inl err \<Rightarrow> Inl err
         | Inr base \<Rightarrow>
             (let life = useful_life_years desc;
                  r2 = r1\<lparr>Base_Value := base, Useful_Life := Num (real_of_int life)\<rparr>;
                  send_year = send_year_of (Evidence_Month r2) (Month r2);
                  stype = (if Source_Type r2 \<noteq> [] then Source_Type r2 else ''unknown'')
              in case base of
                   Some base_val \<Rightarrow>
                     if base_val > 0
                     then Inr (r2\<lparr>Final_Depreciated_Value :=
                                     Num (depreciate base_val life stype send_year)\<rparr>)
                     else Inr r2
                 | None \<Rightarrow> Inr r2))"

text \<open>\<^verbatim>\<open>work\<close>: the first candidate document that yields any signal.\<close>

definition any_signal :: "evidence \<Rightarrow> bool" where
  "any_signal r \<longleftrightarrow> truthy_str (ev_status r) \<or> truthy_str (ev_evidence_month r)
                     \<or> truthy_str (ev_items r) \<or> truthy_num (ev_value_eur r)"

fun work_loop ::
  "env \<Rightarrow> world \<Rightarrow> string \<Rightarrow> string list \<Rightarrow> (pyerr + evidence option) \<times> world" where
  "work_loop e w country [] = (Inr None, w)"
| "work_loop e w country (u # cands) =
     (case parse_source e w u country of
        (Inl err, w') \<Rightarrow> (Inl err, w')
      | (Inr r, w') \<Rightarrow>
          if any_signal r then (Inr (Some r), w') else work_loop e w' country cands)"

definition work :: "env \<Rightarrow> world \<Rightarrow> string \<Rightarrow> row \<Rightarrow> (pyerr + evidence option) \<times> world" where
  "work e w country r =
     (case resolve_url_candidates e w (Sources r) of
        (cands, w1) \<Rightarrow> work_loop e w1 country cands)"

text \<open>
  One scheduled record through \<^verbatim>\<open>auto_enrich_military\<close>: its task, then the merge of what
  the task found. The thread pool and the order of completion are not modelled; a
  record is touched by its own task only.
\<close>

definition enrich_row :: "env \<Rightarrow> world \<Rightarrow> string \<Rightarrow> row \<Rightarrow> (pyerr + row) \<times> world" where
  "enrich_row e w country r =
     (case work e w country r of
        (Inl err, w') \<Rightarrow> (Inl err, w')
      | (Inr None, w') \<Rightarrow> (Inr r, w')
      | (Inr (Some res), w') \<Rightarrow> (merge_row r res, w'))"

section \<open>Concrete inputs\<close>

text \<open>
  A row of the military sheet for a transfer of tanks from stock, and a document that
  only says the transfer was delivered.
\<close>

definition example_row :: row where
  "example_row =
     \<lparr>Month = ''2023-03'', Base_Value = Some 1000, Notable_Weapons = ''Leopard tanks'',
      Status = [], Evidence_Month = [], Sources = [], Source_Type = ''stockpile'',
      Production_Year = Str [], Useful_Life = Str [], Training_Value = Str [],
      Final_Depreciated_Value = Str []\<rparr>"

definition example_evidence :: evidence where
  "example_evidence = no_evidence\<lparr>ev_status := Some ''Delivered/Disbursed''\<rparr>"

text \<open>
  Two environments with a working and, for the second, a failing network, and a world
  with an empty cache. The page served has two runs of white space.
\<close>

definition example_env :: env where
  "example_env =
     \<lparr>HAVE_WEB = True, have_pdf_extract = False, cache_writable = True,
      http_get = (\<lambda>u. Some \<lparr>content_type = ''text/html'', page_text = ''two  tanks '',
                               published = [], pdf_text = None\<rparr>),
      google_hrefs = (\<lambda>u. None), href_q = (\<lambda>h. Inr []), hostname = (\<lambda>u. Inr []),
      search_dates = (\<lambda>t langs. None), fx_api = (\<lambda>c. None)\<rparr>"

definition offline_env :: env where
  "offline_env = example_env\<lparr>http_get := (\<lambda>u. None)\<rparr>"

definition empty_world :: world where
  "empty_world = \<lparr>cache = Map.empty, net_log = [], FX_CACHE = Map.empty\<rparr>"

section \<open>Evaluating the matcher\<close>

text \<open>
  The facts collected in \<open>ev\<close> let the simplifier run the matcher on a concrete text.
  The character classes are decided on the bits of a character; the name of a pattern
  is unfolded only when the matcher reaches it; and an alternation is first cut down
  to the alternatives that can start with the next character, which is sound since an
  alternative that cannot start with it fails.
\<close>

named_theorems ev

lemma is_digit_bits [ev]:
  "is_digit (Char b0 b1 b2 b3 b4 b5 b6 b7) \<longleftrightarrow>
     b4 \<and> b5 \<and> \<not> b6 \<and> \<not> b7 \<and> (\<not> b3 \<or> (\<not> b1 \<and> \<not> b2))"
  by (cases b7; cases b6; cases b5; cases b4; simp add: is_digit_def;
      cases b3; cases b2; cases b1; simp)

lemma is_upper_bits [ev]:
  "is_upper (Char b0 b1 b2 b3 b4 b5 b6 b7) \<longleftrightarrow>
     \<not> b5 \<and> b6 \<and> \<not> b7 \<and> (b0 \<or> b1 \<or> b2 \<or> b3 \<or> b4) \<and>
     \<not> (b4 \<and> b3 \<and> (b2 \<or> (b1 \<and> b0)))"
  by (cases b7; cases b6; cases b5; simp add: is_upper_def;
      cases b4; cases b3; cases b2; cases b1; cases b0; simp)

lemma is_lower_bits [ev]:
  "is_lower (Char b0 b1 b2 b3 b4 b5 b6 b7) \<longleftrightarrow>
     b5 \<and> b6 \<and> \<not> b7 \<and> (b0 \<or> b1 \<or> b2 \<or> b3 \<or> b4) \<and>
     \<not> (b4 \<and> b3 \<and> (b2 \<or> (b1 \<and> b0)))"
  by (cases b7; cases b6; cases b5; simp add: is_lower_def;
      cases b4; cases b3; cases b2; cases b1; cases b0; simp)

lemma is_space_bits [ev]:
  "is_space (Char b0 b1 b2 b3 b4 b5 b6 b7) \<longleftrightarrow>
     \<not> b6 \<and> \<not> b7 \<and>
     ((b5 \<and> \<not> b4 \<and> \<not> b3 \<and> \<not> b2 \<and> \<not> b1 \<and> \<not> b0) \<or>
      (\<not> b5 \<and> \<not> b4 \<and> b3 \<and> (\<not> b2 \<and> (b1 \<or> b0) \<or> b2 \<and> \<not> b1)) \<or>
      (\<not> b5 \<and> b4 \<and> b3 \<and> b2))"
  by (cases b7; cases b6; simp add: is_space_def;
      cases b5; cases b4; cases b3; simp; cases b2; cases b1; cases b0; simp)

lemma lower_char_bits [ev]:
  "lower_char (Char b0 b1 b2 b3 b4 b5 b6 b7) =
     (if is_upper (Char b0 b1 b2 b3 b4 b5 b6 b7) then Char b0 b1 b2 b3 b4 True b6 b7
      else Char b0 b1 b2 b3 b4 b5 b6 b7)"
  unfolding is_upper_bits
  by (cases b7; cases b6; cases b5; simp add: lower_char_def;
      cases b4; cases b3; cases b2; cases b1; cases b0; simp)

lemma upper_char_bits [ev]:
  "upper_char (Char b0 b1 b2 b3 b4 b5 b6 b7) =
     (if is_lower (Char b0 b1 b2 b3 b4 b5 b6 b7) then Char b0 b1 b2 b3 b4 False b6 b7
      else Char b0 b1 b2 b3 b4 b5 b6 b7)"
  unfolding is_lower_bits
  by (cases b7; cases b6; cases b5; simp add: upper_char_def;
      cases b4; cases b3; cases b2; cases b1; cases b0; simp)

lemmas [ev] = is_alpha_def is_word_def same_char_def advance_def word_before_def
  word_after_def match_at_def start_state_def re_match_def re_search_def found_def
  finditer_def group0_def group_def or_str_def lower_def upper_def

subsection \<open>An alternative that cannot start with the next character fails\<close>

lemma rxk_start: "rxk k st = Some res \<Longrightarrow> rest st = c # s \<Longrightarrow> kstart c k"
  by (induction k st rule: rxk.induct)
     (auto split: option.splits if_splits list.splits simp: advance_def)

lemma rxk_cannot_start:
  assumes "rest st = c # s" "\<not> can_start c r"
  shows "rxk (KRx r # k) st = None"
proof (cases "rxk (KRx r # k) st")
  case (Some res)
  from rxk_start [OF this assms(1)] assms(2) show ?thesis
    by (simp add: can_start_def)
qed simp

lemma alts_filter:
  "rest st = c # s \<Longrightarrow>
   rxk (KRx (Alts rs) # k) st = rxk (KRx (Alts (filter (can_start c) rs)) # k) st"
  by (induction rs) (auto simp: rxk_cannot_start split: option.splits)

lemma alts_try_simps [ev]:
  "alts_try [] k st = None"
  "alts_try (r # rs) k st =
     (case rxk (KRx r # k) st of Some x \<Rightarrow> Some x | None \<Rightarrow> alts_try rs k st)"
  unfolding alts_try_def by simp_all

lemma alts_prune [ev]:
  "rxk (KRx (Alts (r # rs)) # k) \<lparr>prev = p, rest = c # s, acc = a, caps = cs\<rparr> =
     alts_try (filter (can_start c) (r # rs)) k \<lparr>prev = p, rest = c # s, acc = a, caps = cs\<rparr>"
  unfolding alts_try_def by (rule alts_filter) simp

lemma alts_at_end [ev]:
  "rxk (KRx (Alts (r # rs)) # k) \<lparr>prev = p, rest = [], acc = a, caps = cs\<rparr> =
     alts_try (r # rs) k \<lparr>prev = p, rest = [], acc = a, caps = cs\<rparr>"
  unfolding alts_try_def by simp

lemmas [ev] = can_start_def

subsection \<open>Unfolding the name of a pattern where the matcher meets it\<close>

lemma open_rx: "r = body \<Longrightarrow> rxk (KRx r # k) st = rxk (KRx body # k) st"
  by simp

lemma open_first: "r = body \<Longrightarrow> first r = first body"
  by simp

lemma open_nullable: "r = body \<Longrightarrow> nullable r = nullable body"
  by simp

lemmas [ev] =
  open_rx [OF lit_def] open_rx [OF liti_def] open_rx [OF one_of_def] open_rx [OF opt_def]
  open_rx [OF plus_def] open_rx [OF lazy_plus_def] open_rx [OF digit_def]
  open_rx [OF space_def] open_rx [OF wordc_def] open_rx [OF dot_def]
  open_rx [OF word_s_def] open_rx [OF words_sp_def] open_rx [OF words_sp0_def]
  open_rx [OF bword_def] open_rx [OF MULT_ALTS_def] open_rx [OF NUM_RX_def]
  open_rx [OF CUR_BEFORE_def] open_rx [OF RX_BEFORE_def] open_rx [OF CUR_AFTER_def]
  open_rx [OF RX_AFTER_def] open_rx [OF DELIVERY_WORDS_def] open_rx [OF COMMIT_WORDS_def]
  open_rx [OF STOCKPILE_RX_def] open_rx [OF NEW_PRODUCTION_RX_def]
  open_rx [OF INDIRECT_RX_def] open_rx [OF dash_sp_def] open_rx [OF LIFE_AMMO_def]
  open_rx [OF LIFE_ARTILLERY_def] open_rx [OF LIFE_ARMOR_def]
  open_rx [OF LIFE_AIR_DEFENSE_def] open_rx [OF LIFE_UAV_def] open_rx [OF LIFE_SOFT_def]
  open_rx [OF LIFE_DEMINING_def] open_rx [OF bjoin_def] open_rx [OF ITEM_NOUNS_def]
  open_rx [OF QTY_RX_def] open_rx [OF name_char_def] open_rx [OF alnum_def]
  open_rx [OF NAME_RX_def] open_rx [OF CALIBER_RX_def] open_rx [OF ITEM_RX_def]
  open_rx [OF caliber_ammo_def] open_rx [OF QTY_ITEM_RX_def] open_rx [OF WINDOW_RX_def]

lemmas [ev] =
  open_first [OF lit_def] open_first [OF liti_def] open_first [OF one_of_def]
  open_first [OF opt_def] open_first [OF plus_def] open_first [OF lazy_plus_def]
  open_first [OF digit_def] open_first [OF space_def] open_first [OF wordc_def]
  open_first [OF dot_def] open_first [OF word_s_def] open_first [OF words_sp_def]
  open_first [OF words_sp0_def] open_first [OF bword_def] open_first [OF MULT_ALTS_def]
  open_first [OF NUM_RX_def] open_first [OF CUR_BEFORE_def] open_first [OF RX_BEFORE_def]
  open_first [OF CUR_AFTER_def] open_first [OF RX_AFTER_def]
  open_first [OF DELIVERY_WORDS_def] open_first [OF COMMIT_WORDS_def]
  open_first [OF STOCKPILE_RX_def] open_first [OF NEW_PRODUCTION_RX_def]
  open_first [OF INDIRECT_RX_def] open_first [OF dash_sp_def] open_first [OF LIFE_AMMO_def]
  open_first [OF LIFE_ARTILLERY_def] open_first [OF LIFE_ARMOR_def]
  open_first [OF LIFE_AIR_DEFENSE_def] open_first [OF LIFE_UAV_def]
  open_first [OF LIFE_SOFT_def] open_first [OF LIFE_DEMINING_def] open_first [OF bjoin_def]
  open_first [OF ITEM_NOUNS_def] open_first [OF QTY_RX_def] open_first [OF name_char_def]
  open_first [OF alnum_def] open_first [OF NAME_RX_def] open_first [OF CALIBER_RX_def]
  open_first [OF ITEM_RX_def] open_first [OF caliber_ammo_def]
  open_first [OF QTY_ITEM_RX_def] open_first [OF WINDOW_RX_def]

lemmas [ev] =
  open_nullable [OF lit_def] open_nullable [OF liti_def] open_nullable [OF one_of_def]
  open_nullable [OF opt_def] open_nullable [OF plus_def] open_nullable [OF lazy_plus_def]
  open_nullable [OF digit_def] open_nullable [OF space_def] open_nullable [OF wordc_def]
  open_nullable [OF dot_def] open_nullable [OF word_s_def] open_nullable [OF words_sp_def]
  open_nullable [OF words_sp0_def] open_nullable [OF bword_def]
  open_nullable [OF MULT_ALTS_def] open_nullable [OF NUM_RX_def]
  open_nullable [OF CUR_BEFORE_def] open_nullable [OF RX_BEFORE_def]
  open_nullable [OF CUR_AFTER_def] open_nullable [OF RX_AFTER_def]
  open_nullable [OF DELIVERY_WORDS_def] open_nullable [OF COMMIT_WORDS_def]
  open_nullable [OF STOCKPILE_RX_def] open_nullable [OF NEW_PRODUCTION_RX_def]
  open_nullable [OF INDIRECT_RX_def] open_nullable [OF dash_sp_def]
  open_nullable [OF LIFE_AMMO_def] open_nullable [OF LIFE_ARTILLERY_def]
  open_nullable [OF LIFE_ARMOR_def] open_nullable [OF LIFE_AIR_DEFENSE_def]
  open_nullable [OF LIFE_UAV_def] open_nullable [OF LIFE_SOFT_def]
  open_nullable [OF LIFE_DEMINING_def] open_nullable [OF bjoin_def]
  open_nullable [OF ITEM_NOUNS_def] open_nullable [OF QTY_RX_def]
  open_nullable [OF name_char_def] open_nullable [OF alnum_def]
  open_nullable [OF NAME_RX_def] open_nullable [OF CALIBER_RX_def]
  open_nullable [OF ITEM_RX_def] open_nullable [OF caliber_ammo_def]
  open_nullable [OF QTY_ITEM_RX_def] open_nullable [OF WINDOW_RX_def]

lemmas [ev] = CUR_SYMBOLS_def

section \<open>Depreciation\<close>

lemma life_or_1_pos: "0 \<le> life \<Longrightarrow> 0 < life_or_1 life"
  by (simp add: life_or_1_def)

lemma useful_life_years_nonneg: "0 \<le> useful_life_years t"
  by (simp add: useful_life_years_def Let_def)

lemma years_used_nonneg: "0 \<le> years_used y life"
  by (simp add: years_used_def)

lemma years_used_diff: "years_used y life = y - prod_year y life"
  by (simp add: years_used_def prod_year_def)

lemma stockpile_value_bounds:
  assumes "0 \<le> b" "0 \<le> life"
  shows "0 \<le> stockpile_value b life y \<and> stockpile_value b life y \<le> b"
proof -
  have "0 \<le> annual b life"
    using assms life_or_1_pos [of life] by (simp add: annual_def)
  then have "0 \<le> annual b life * real_of_int (years_used y life)"
    using years_used_nonneg [of y life] by simp
  then show ?thesis using assms(1) by (simp add: stockpile_value_def)
qed

lemma depreciate_bounds:
  assumes "0 \<le> b" "0 \<le> life"
  shows "0 \<le> depreciate b life stype y \<and> depreciate b life stype y \<le> b"
  using assms stockpile_value_bounds [OF assms]
  by (simp add: depreciate_def split: option.splits)

lemma depreciate_other: "stype \<noteq> ''stockpile'' \<Longrightarrow> depreciate b life stype y = b"
  by (simp add: depreciate_def split: option.splits)

text \<open>What \<open>merge_row\<close> writes into each column when it returns.\<close>

lemma merge_row_fields:
  assumes "merge_row r res = Inr r'"
  shows "Month r' = Month r" "Sources r' = Sources r"
    "Production_Year r' = Production_Year r" "Training_Value r' = Training_Value r"
    "Notable_Weapons r' = merge_items (Notable_Weapons r) (ev_items res)"
    "Status r' = fill_blank (Status r) (ev_status res)"
    "Evidence_Month r' = fill_blank (Evidence_Month r) (ev_evidence_month res)"
    "Source_Type r' = fill_blank (Source_Type r) (ev_source_type res)"
    "merge_base (Base_Value r) res = Inr (Base_Value r')"
    "Useful_Life r' = Num (real_of_int (useful_life_years (Notable_Weapons r')))"
    "Final_Depreciated_Value r' =
       (case Base_Value r' of
          Some b \<Rightarrow>
            if b > 0
            then Num (depreciate b (useful_life_years (Notable_Weapons r'))
                        (if Source_Type r' \<noteq> [] then Source_Type r' else ''unknown'')
                        (send_year_of (Evidence_Month r') (Month r')))
            else Final_Depreciated_Value r
        | None \<Rightarrow> Final_Depreciated_Value r)"
  using assms
  by (auto simp: merge_row_def Let_def split: sum.splits option.splits if_splits)

lemma useful_life_leopard: "useful_life_years ''Leopard tanks'' = 25"
  by (simp add: ev useful_life_years_def)

lemma send_year_2023: "send_year_of [] ''2023-03'' = Some 2023"
  by (simp add: ev send_year_of_def py_int_def strip_def strip_with_def digits_val_def
      digit_val_def remove_char_def)

lemma example_merge:
  "merge_row example_row example_evidence =
     Inr (example_row\<lparr>Status := ''Delivered/Disbursed'', Useful_Life := Num 25,
                      Final_Depreciated_Value := Num 520\<rparr>)"
  by (simp add: merge_row_def example_row_def example_evidence_def no_evidence_def
      merge_items_def truthy_str_def fill_blank_def or_str_def merge_base_def
      useful_life_leopard send_year_2023 depreciate_def stockpile_value_def annual_def
      years_used_def prod_year_def life_or_1_def)

text \<open>
  C3, amended. For a record that enrichment leaves with source type \<^verbatim>\<open>stockpile\<close>, a
  positive base value \<open>b\<close> and a month that starts with the year \<open>y\<close>, and with \<open>life\<close> the
  useful life of its description: the assumed production year is
  \<open>y - min (max 1 (L div 2)) 12\<close>, the years used are \<open>y\<close> minus that year, the annual
  depreciation is \<open>b / L\<close> and the final value is \<open>max 0 (b - annual * years_used)\<close>,
  where \<open>L\<close> is \<open>life\<close>, or 1 when \<open>life\<close> is 0 (ammunition); \<open>div\<close> is integer division.
\<close>

theorem stockpile_depreciation_formula:
  assumes "merge_row r res = Inr r'"
    and "Source_Type r' = ''stockpile''"
    and "Base_Value r' = Some b" and "0 < b"
    and "send_year_of (Evidence_Month r') (Month r') = Some y"
  shows "let life = useful_life_years (Notable_Weapons r');
             L = (if life = 0 then 1 else life)
         in prod_year y life = y - min (max 1 (L div 2)) 12
          \<and> years_used y life = y - prod_year y life
          \<and> annual b life = b / real_of_int L
          \<and> Final_Depreciated_Value r' =
              Num (max 0 (b - annual b life * real_of_int (years_used y life)))"
  using merge_row_fields(11) [OF assms(1)] assms(2-5)
  by (simp add: prod_year_def years_used_def annual_def life_or_1_def depreciate_def
      stockpile_value_def Let_def)

theorem stockpile_depreciation_formula_witness:
  "merge_row example_row example_evidence =
     Inr (example_row\<lparr>Status := ''Delivered/Disbursed'', Useful_Life := Num 25,
                      Final_Depreciated_Value := Num 520\<rparr>)
   \<and> prod_year 2023 25 = 2011 \<and> years_used 2023 25 = 12 \<and> annual 1000 25 = 40
   \<and> Num 520 = Num (max 0 (1000 - annual 1000 25 * real_of_int (years_used 2023 25)))"
proof -
  have "prod_year 2023 25 = 2011 \<and> years_used 2023 25 = 12 \<and> annual 1000 25 = 40
      \<and> Num 520 = Num (max 0 (1000 - annual 1000 25 * real_of_int (years_used 2023 25)))"
    using stockpile_depreciation_formula [OF example_merge, of 1000 2023]
    by (simp add: example_row_def useful_life_leopard send_year_2023 Let_def)
  with example_merge show ?thesis by (rule conjI)
qed

text \<open>
  C3 as stated fails for ammunition, whose useful life is 0: the annual depreciation
  the code uses is the whole base value, not the base value divided by the useful life
  (a division by zero, which is 0 in HOL and an error in Python).
\<close>

theorem stockpile_depreciation_formula_counterexample:
  "useful_life_years ''155mm shells'' = 0
   \<and> annual 1000 (useful_life_years ''155mm shells'') = 1000
   \<and> annual 1000 (useful_life_years ''155mm shells'')
       \<noteq> 1000 / real_of_int (useful_life_years ''155mm shells'')
   \<and> annual 1000 (useful_life_years ''155mm shells'')
       * real_of_int (useful_life_years ''155mm shells'') \<noteq> 1000"
proof -
  have "useful_life_years ''155mm shells'' = 0"
    by (simp add: ev useful_life_years_def)
  then show ?thesis by (simp add: annual_def life_or_1_def)
qed

text \<open>
  C7. When the source type of an enriched record is anything but \<^verbatim>\<open>stockpile\<close>
  (a blank one counts as \<^verbatim>\<open>unknown\<close>), the final depreciated value is its base value;
  the step the spec calls \<^verbatim>\<open>depreciate\<close> returns any base value unchanged for such a
  source type, with or without a year, as does the same step of
  \<^verbatim>\<open>_build_rows_from_web\<close>; and \<^verbatim>\<open>depreciate(1_000_000, 25, "new_production", 2023)\<close>
  is 1,000,000. (The final column is written only for a positive base value.)
\<close>

theorem depreciation_identity_outside_stockpile:
  assumes "merge_row r res = Inr r'"
    and "Source_Type r' \<noteq> ''stockpile''"
    and "Base_Value r' = Some b" and "0 < b"
  shows "Final_Depreciated_Value r' = Num b
       \<and> (\<forall>v life y. depreciate v life (Source_Type r') y = v)
       \<and> (\<forall>v life. web_final v life (Some (Source_Type r')) = v)
       \<and> depreciate 1000000 25 ''new_production'' (Some 2023) = 1000000"
  using merge_row_fields(11) [OF assms(1)] assms(2-4)
  by (simp add: depreciate_other web_final_def)

theorem depreciation_identity_outside_stockpile_witness:
  "merge_row (example_row\<lparr>Source_Type := ''new_production''\<rparr>) example_evidence =
     Inr (example_row\<lparr>Source_Type := ''new_production'', Status := ''Delivered/Disbursed'',
                      Useful_Life := Num 25, Final_Depreciated_Value := Num 1000\<rparr>)
   \<and> ''new_production'' \<noteq> ''stockpile'' \<and> (0::real) < 1000
   \<and> Final_Depreciated_Value
        (example_row\<lparr>Source_Type := ''new_production'', Status := ''Delivered/Disbursed'',
                      Useful_Life := Num 25, Final_Depreciated_Value := Num 1000\<rparr>) = Num 1000"
proof -
  have m: "merge_row (example_row\<lparr>Source_Type := ''new_production''\<rparr>) example_evidence =
     Inr (example_row\<lparr>Source_Type := ''new_production'', Status := ''Delivered/Disbursed'',
                      Useful_Life := Num 25, Final_Depreciated_Value := Num 1000\<rparr>)"
    by (simp add: merge_row_def example_row_def example_evidence_def no_evidence_def
        merge_items_def truthy_str_def fill_blank_def or_str_def merge_base_def
        useful_life_leopard send_year_2023 depreciate_def)
  from depreciation_identity_outside_stockpile [OF m, of 1000] m show ?thesis
    by (simp add: example_row_def)
qed

text \<open>
  C8. For a base value \<open>b \<ge> 0\<close>, the useful life of any item text, and any evidence year
  or none, the depreciated value of a stockpile record lies between 0 and \<open>b\<close>.
\<close>

theorem depreciation_bounds:
  assumes "0 \<le> b"
  shows "0 \<le> depreciate b (useful_life_years t) ''stockpile'' y
       \<and> depreciate b (useful_life_years t) ''stockpile'' y \<le> b"
  using depreciate_bounds [OF assms useful_life_years_nonneg] .

theorem depreciation_bounds_witness:
  "(0::real) \<le> 1000
   \<and> depreciate 1000 (useful_life_years ''Leopard tanks'') ''stockpile'' (Some 2023) = 520
   \<and> 0 \<le> depreciate 1000 (useful_life_years ''Leopard tanks'') ''stockpile'' (Some 2023)
   \<and> depreciate 1000 (useful_life_years ''Leopard tanks'') ''stockpile'' (Some 2023) \<le> 1000"
  using depreciation_bounds [of 1000 "''Leopard tanks''" "Some 2023"]
  by (simp add: useful_life_leopard depreciate_def stockpile_value_def annual_def
      years_used_def prod_year_def life_or_1_def)

section \<open>Acquisition\<close>

lemma uniq_acc_distinct: "distinct u \<Longrightarrow> distinct (uniq_acc xs u)"
  by (induction xs arbitrary: u) auto

lemma uniq_list_distinct: "distinct (uniq_list xs)"
  by (simp add: uniq_list_def uniq_acc_distinct)

lemma fetch_text_log:
  "length (net_log (snd (fetch_text e w url))) \<le> length (net_log w) + 1"
  by (simp add: fetch_text_def save_cache_def log_request_def read_cache_def Let_def
      split: option.splits)

lemma parse_source_log:
  "length (net_log (snd (parse_source e w url country))) \<le> length (net_log w) + 1"
proof -
  obtain k t w1 where f: "fetch_text e w url = ((k, t), w1)"
    by (metis prod.exhaust)
  have "length (net_log w1) \<le> length (net_log w) + 1"
    using fetch_text_log [of e w url] f by simp
  then show ?thesis
    by (auto simp: parse_source_def f Let_def split: sum.splits prod.splits)
qed

lemma work_loop_log:
  "length (net_log (snd (work_loop e w country cands))) \<le> length (net_log w) + length cands"
proof (induction cands arbitrary: w)
  case Nil
  then show ?case by simp
next
  case (Cons u cands)
  obtain res w' where p: "parse_source e w u country = (res, w')"
    by (metis prod.exhaust)
  have 1: "length (net_log w') \<le> length (net_log w) + 1"
    using parse_source_log [of e w u country] p by simp
  show ?case
  proof (cases res)
    case (Inl err)
    with p 1 show ?thesis by simp
  next
    case (Inr r)
    with p 1 Cons.IH [of w'] show ?thesis by auto
  qed
qed

text \<open>
  C10. The candidate list that \<^verbatim>\<open>_resolve_url_candidates\<close> returns for any \<^verbatim>\<open>Sources\<close>
  string has at most two URLs and no URL twice, whatever is listed and whatever the
  searches return; so the loop of \<^verbatim>\<open>work\<close> over it requests at most two documents.
\<close>

theorem url_candidates_bound:
  "length (fst (resolve_url_candidates e w src)) \<le> 2
   \<and> distinct (fst (resolve_url_candidates e w src))
   \<and> length (net_log (snd (work_loop e w' country (fst (resolve_url_candidates e w src)))))
       \<le> length (net_log w') + 2"
proof -
  have 1: "length (fst (resolve_url_candidates e w src)) \<le> 2"
    by (simp add: resolve_url_candidates_def split: prod.splits)
  have 2: "distinct (fst (resolve_url_candidates e w src))"
    by (simp add: resolve_url_candidates_def uniq_list_distinct split: prod.splits)
  from work_loop_log [of e w' country "fst (resolve_url_candidates e w src)"] 1
  have "length (net_log (snd (work_loop e w' country (fst (resolve_url_candidates e w src)))))
          \<le> length (net_log w') + 2"
    by linarith
  with 1 2 show ?thesis by blast
qed

text \<open>
  C9, amended. The cache is looked up before the network: a fetch of a cached URL
  changes nothing and requests nothing. If the first of two fetches of a URL leaves
  it cached, the second returns the same kind and text and requests nothing, so the
  two make at most one request. A first fetch of an uncached URL that succeeds, with
  the network available and the cache writable, does leave it cached, and the two
  fetches make exactly one request. A fetch that fails is not cached.
\<close>

theorem cache_idempotence:
  assumes "fetch_text e w url = (r1, w1)" and "fetch_text e w1 url = (r2, w2)"
  shows "(cache w url \<noteq> None \<longrightarrow> w1 = w)
       \<and> (cache w1 url \<noteq> None \<longrightarrow>
            r2 = r1 \<and> w2 = w1 \<and> (net_log w2 = net_log w \<or> net_log w2 = net_log w @ [url]))
       \<and> (HAVE_WEB e \<and> cache_writable e \<and> cache w url = None \<and> r1 \<noteq> ([], []) \<longrightarrow>
            cache w1 url \<noteq> None \<and> net_log w2 = net_log w @ [url])"
  using assms
  by (auto simp: fetch_text_def save_cache_def log_request_def read_cache_def Let_def
      split: option.splits if_splits)

lemma example_fetch:
  "fetch_text example_env empty_world ''http://a'' =
     ((''html'', ''two tanks''),
      \<lparr>cache = [''http://a'' \<mapsto> Doc ''html'' ''two tanks''], net_log = [''http://a''],
       FX_CACHE = Map.empty\<rparr>)"
  by (simp add: fetch_text_def example_env_def empty_world_def read_cache_def
      log_request_def save_cache_def lower_def endswith_def split_ws_def Let_def ev)

lemma example_fetch_again:
  "fetch_text example_env
     \<lparr>cache = [''http://a'' \<mapsto> Doc ''html'' ''two tanks''], net_log = [''http://a''],
      FX_CACHE = Map.empty\<rparr> ''http://a'' =
     ((''html'', ''two tanks''),
      \<lparr>cache = [''http://a'' \<mapsto> Doc ''html'' ''two tanks''], net_log = [''http://a''],
       FX_CACHE = Map.empty\<rparr>)"
  by (simp add: fetch_text_def example_env_def read_cache_def)

theorem cache_idempotence_witness:
  "fetch_text example_env empty_world ''http://a'' =
     ((''html'', ''two tanks''),
      \<lparr>cache = [''http://a'' \<mapsto> Doc ''html'' ''two tanks''], net_log = [''http://a''],
       FX_CACHE = Map.empty\<rparr>)
   \<and> fetch_text example_env
       \<lparr>cache = [''http://a'' \<mapsto> Doc ''html'' ''two tanks''], net_log = [''http://a''],
        FX_CACHE = Map.empty\<rparr> ''http://a'' =
     ((''html'', ''two tanks''),
      \<lparr>cache = [''http://a'' \<mapsto> Doc ''html'' ''two tanks''], net_log = [''http://a''],
       FX_CACHE = Map.empty\<rparr>)
   \<and> HAVE_WEB example_env \<and> cache_writable example_env \<and> cache empty_world ''http://a'' = None
   \<and> net_log \<lparr>cache = [''http://a'' \<mapsto> Doc ''html'' ''two tanks''], net_log = [''http://a''],
               FX_CACHE = Map.empty\<rparr> = net_log empty_world @ [''http://a'']"
proof -
  have "net_log \<lparr>cache = [''http://a'' \<mapsto> Doc ''html'' ''two tanks''],
                  net_log = [''http://a''], FX_CACHE = Map.empty\<rparr>
          = net_log empty_world @ [''http://a'']"
    using cache_idempotence [OF example_fetch example_fetch_again]
    by (simp add: example_env_def empty_world_def)
  moreover have "HAVE_WEB example_env \<and> cache_writable example_env
      \<and> cache empty_world ''http://a'' = None"
    by (simp add: example_env_def empty_world_def)
  ultimately show ?thesis
    using example_fetch example_fetch_again by blast
qed

text \<open>
  C9 as stated fails when the first fetch fails: nothing is cached, and the second
  fetch of the same URL goes to the network again, two requests in all.
\<close>

theorem cache_idempotence_counterexample:
  "net_log (snd (fetch_text offline_env
                   (snd (fetch_text offline_env empty_world ''http://a'')) ''http://a''))
     = [''http://a'', ''http://a'']"
  by (simp add: fetch_text_def offline_env_def example_env_def empty_world_def read_cache_def
      log_request_def)

section \<open>Numerals with separators\<close>






















end
